theory Spec2Isabelle
  imports Complex_Main
begin

section \<open>Python values used by the protocols\<close>

text \<open>
  The protocol classes are Python. Integers are unbounded (\<open>int\<close>), floats are modelled
  by the reals, a raised exception is the left summand of \<open>error + 'a\<close>.
\<close>

datatype error = IndexError | ValueError

definition and_then :: "error + 'a \<Rightarrow> ('a \<Rightarrow> error + 'b) \<Rightarrow> error + 'b" where
  "and_then m f = (case m of Inl e \<Rightarrow> Inl e | Inr x \<Rightarrow> f x)"

text \<open>\<open>xs[i]\<close>: a negative index counts from the end, an index out of range raises.\<close>

definition py_index :: "'a list \<Rightarrow> int \<Rightarrow> error + 'a" where
  "py_index xs i =
     (if 0 \<le> i \<and> i < int (length xs) then Inr (xs ! nat i)
      else if i < 0 \<and> - int (length xs) \<le> i then Inr (xs ! nat (int (length xs) + i))
      else Inl IndexError)"

text \<open>\<open>range(n)\<close>: empty when \<open>n\<close> is not positive.\<close>

definition py_range :: "int \<Rightarrow> nat list" where
  "py_range n = [0..<nat n]"

text \<open>\<open>xs[:k]\<close>: a negative bound drops that many elements from the end.\<close>

definition py_slice_to :: "'a list \<Rightarrow> int \<Rightarrow> 'a list" where
  "py_slice_to xs k = (if 0 \<le> k then take (nat k) xs else take (length xs - nat (- k)) xs)"

text \<open>A \<open>for\<close> loop whose body may raise: the first exception ends the loop.\<close>

fun for_each :: "'a list \<Rightarrow> ('a \<Rightarrow> 's \<Rightarrow> error + 's) \<Rightarrow> 's \<Rightarrow> error + 's" where
  "for_each [] body s = Inr s"
| "for_each (x # xs) body s =
     (case body x s of Inl e \<Rightarrow> Inl e | Inr s' \<Rightarrow> for_each xs body s')"

section \<open>SARG04 (protocols/sarg04.py)\<close>

text \<open>
  The \<open>Qubit\<close> class lives in the core package. \<open>prepare_states\<close> only calls its
  four canonical constructors, so a prepared qubit is modelled by the constructor that
  made it; what the channel delivers is left open (the type \<open>'q\<close> below).
\<close>

datatype qubit = Qubit_zero | Qubit_one | Qubit_plus | Qubit_minus

record sarg04 =
  key_length :: int
  bases :: "string list"
  security_threshold :: real
  num_qubits :: int
  alice_bits :: "int list"
  alice_bases :: "string list"
  bob_results :: "int option list"
  bob_bases :: "string option list"
  announced_sets :: "(string \<times> string) list"

definition sarg04_init :: "int \<Rightarrow> sarg04" where
  "sarg04_init k =
     \<lparr>key_length = k, bases = [''computational'', ''hadamard''],
      security_threshold = 11 / 100, num_qubits = k * 6, alice_bits = [], alice_bases = [],
      bob_results = [], bob_bases = [], announced_sets = []\<rparr>"

text \<open>
  The three draws of one iteration of \<open>prepare_states\<close>: \<open>secure_randint(0, 2)\<close> for
  the bit, \<open>secure_choice(self.bases)\<close> for the basis, \<open>secure_randint(0, 2)\<close> for the
  order of the announced pair.
\<close>

record prep_draw =
  bit_draw :: int
  basis_draw :: string
  order_draw :: int

text \<open>Lines 86 to 103: the qubit, the string of the sent state, and its partner.\<close>

definition encode :: "string \<Rightarrow> int \<Rightarrow> qubit \<times> string \<times> string" where
  "encode basis bit_i =
     (if basis = ''computational'' then
        (if bit_i = 0 then (Qubit_zero, ''0'', ''-'') else (Qubit_one, ''1'', ''+''))
      else
        (if bit_i = 0 then (Qubit_plus, ''+'', ''1'') else (Qubit_minus, ''-'', ''0'')))"

definition sarg04_prepare_body :: "(nat \<Rightarrow> prep_draw) \<Rightarrow> nat \<Rightarrow> qubit list \<times> sarg04 \<Rightarrow> qubit list \<times> sarg04" where
  "sarg04_prepare_body draws i = (\<lambda>(qubits, s).
     let bit_i = bit_draw (draws i);
         basis = basis_draw (draws i);
         (qubit, sent_state_str, partner_state) = encode basis bit_i;
         announced = (if order_draw (draws i) = 0 then (sent_state_str, partner_state)
                      else (partner_state, sent_state_str))
     in (qubits @ [qubit],
         s\<lparr>alice_bits := alice_bits s @ [bit_i],
           alice_bases := alice_bases s @ [basis],
           announced_sets := announced_sets s @ [announced]\<rparr>))"

definition sarg04_prepare_states :: "sarg04 \<Rightarrow> (nat \<Rightarrow> prep_draw) \<Rightarrow> qubit list \<times> sarg04" where
  "sarg04_prepare_states s draws =
     fold (sarg04_prepare_body draws) (py_range (num_qubits s))
       ([], s\<lparr>alice_bits := [], alice_bases := [], announced_sets := []\<rparr>)"

text \<open>
  \<open>measure_states\<close>: a lost qubit (\<open>None\<close>) records \<open>None\<close> twice and draws nothing.
  For the \<open>k\<close>-th received qubit, \<open>choice k\<close> is what \<open>secure_choice(self.bases)\<close>
  returns and \<open>measure_in_basis k\<close> the outcome of \<open>Measurement.measure_in_basis\<close>
  (core package); the collapse that follows only changes the qubit.
\<close>

fun sarg04_measure_loop ::
  "(nat \<Rightarrow> string) \<Rightarrow> (nat \<Rightarrow> 'q \<Rightarrow> string \<Rightarrow> int) \<Rightarrow> 'q option list \<Rightarrow> nat \<Rightarrow> sarg04 \<Rightarrow> sarg04" where
  "sarg04_measure_loop choice measure_in_basis [] k s = s"
| "sarg04_measure_loop choice measure_in_basis (None # qubits) k s =
     sarg04_measure_loop choice measure_in_basis qubits k
       (s\<lparr>bob_results := bob_results s @ [None], bob_bases := bob_bases s @ [None]\<rparr>)"
| "sarg04_measure_loop choice measure_in_basis (Some qubit # qubits) k s =
     (let basis = choice k;
          result = measure_in_basis k qubit basis
      in sarg04_measure_loop choice measure_in_basis qubits (Suc k)
           (s\<lparr>bob_bases := bob_bases s @ [Some basis],
              bob_results := bob_results s @ [Some result]\<rparr>))"

definition sarg04_measure_states ::
  "sarg04 \<Rightarrow> (nat \<Rightarrow> string) \<Rightarrow> (nat \<Rightarrow> 'q \<Rightarrow> string \<Rightarrow> int) \<Rightarrow> 'q option list \<Rightarrow> int list \<times> sarg04" where
  "sarg04_measure_states s choice measure_in_basis qubits =
     (let s' = sarg04_measure_loop choice measure_in_basis qubits 0 (s\<lparr>bob_results := [], bob_bases := []\<rparr>)
      in (concat (map (\<lambda>r. case r of None \<Rightarrow> [] | Some v \<Rightarrow> [v]) (bob_results s')), s'))"

definition are_orthogonal :: "string \<Rightarrow> string \<Rightarrow> bool" where
  "are_orthogonal state1 state2 =
     (if state1 = ''0'' \<and> state2 = ''1'' then True
      else if state1 = ''1'' \<and> state2 = ''0'' then True
      else if state1 = ''+'' \<and> state2 = ''-'' then True
      else if state1 = ''-'' \<and> state2 = ''+'' then True
      else False)"

definition get_bit_from_state :: "string \<Rightarrow> error + int" where
  "get_bit_from_state state =
     (if state \<in> set [''0'', ''+''] then Inr 0
      else if state \<in> set [''1'', ''-''] then Inr 1
      else Inl ValueError)"

text \<open>The string of the state the receiver measured (lines 170 to 174).\<close>

definition measured_state :: "string \<Rightarrow> int \<Rightarrow> string" where
  "measured_state bob_basis bob_result =
     (if bob_basis = ''computational'' then (if bob_result = 0 then ''0'' else ''1'')
      else (if bob_result = 0 then ''+'' else ''-''))"

definition sarg04_sift_body :: "sarg04 \<Rightarrow> nat \<Rightarrow> int list \<times> int list \<Rightarrow> error + (int list \<times> int list)" where
  "sarg04_sift_body s i = (\<lambda>(alice_sifted, bob_sifted).
     and_then (py_index (bob_bases s) (int i)) (\<lambda>bob_basis.
       case bob_basis of None \<Rightarrow> Inr (alice_sifted, bob_sifted)
       | Some basis \<Rightarrow>
     and_then (py_index (bob_results s) (int i)) (\<lambda>bob_result.
       case bob_result of None \<Rightarrow> Inr (alice_sifted, bob_sifted)
       | Some result \<Rightarrow>
     and_then (py_index (announced_sets s) (int i)) (\<lambda>(s1, s2).
       let m = measured_state basis result;
           is_ortho_s1 = are_orthogonal m s1;
           is_ortho_s2 = are_orthogonal m s2
       in if is_ortho_s1 \<and> \<not> is_ortho_s2 then
            and_then (get_bit_from_state s2) (\<lambda>inferred_bit.
            and_then (py_index (alice_bits s) (int i)) (\<lambda>a.
              Inr (alice_sifted @ [a], bob_sifted @ [inferred_bit])))
          else if is_ortho_s2 \<and> \<not> is_ortho_s1 then
            and_then (get_bit_from_state s1) (\<lambda>inferred_bit.
            and_then (py_index (alice_bits s) (int i)) (\<lambda>a.
              Inr (alice_sifted @ [a], bob_sifted @ [inferred_bit])))
          else Inr (alice_sifted, bob_sifted)))))"

definition sarg04_sift_keys :: "sarg04 \<Rightarrow> error + (int list \<times> int list)" where
  "sarg04_sift_keys s = for_each (py_range (num_qubits s)) (sarg04_sift_body s) ([], [])"

text \<open>
  \<open>estimate_qber\<close>. \<open>np_random_choice n k\<close> is what the call
  \<open>np.random.choice(n, size=k, replace=False)\<close> returns: it is numpy's process-wide
  generator that answers, not the \<open>secure_random\<close> module.
\<close>

definition count_errors :: "int list \<Rightarrow> int list \<Rightarrow> int list \<Rightarrow> error + nat" where
  "count_errors alice_sifted bob_sifted indices =
     for_each indices (\<lambda>idx errors.
       and_then (py_index alice_sifted idx) (\<lambda>a.
       and_then (py_index bob_sifted idx) (\<lambda>b.
         Inr (if a \<noteq> b then errors + 1 else errors)))) 0"

definition sarg04_estimate_qber :: "sarg04 \<Rightarrow> (nat \<Rightarrow> nat \<Rightarrow> int list) \<Rightarrow> error + real" where
  "sarg04_estimate_qber s np_random_choice =
     and_then (sarg04_sift_keys s) (\<lambda>(alice_sifted, bob_sifted).
       if length alice_sifted < 10 then Inr 1.0
       else
         let sample_size = max 1 (nat \<lfloor>real (length alice_sifted) * 0.2\<rfloor>);
             indices = np_random_choice (length alice_sifted) sample_size
         in and_then (count_errors alice_sifted bob_sifted indices) (\<lambda>errors.
              Inr (real errors / real sample_size)))"

section \<open>E91 and DeviceIndependentQKD (protocols/e91.py, protocols/di_qkd.py)\<close>

text \<open>The attributes of \<open>QuantumChannel\<close> (core package) that the protocols read.\<close>

record channel =
  loss :: real
  noise_model :: string
  noise_level :: real
  loss_coefficient :: real
  distance :: real

text \<open>
  \<open>E91\<close> and \<open>DeviceIndependentQKD\<close> declare the same attributes; \<open>final_key\<close>,
  \<open>qber\<close>, \<open>is_secure\<close> and \<open>is_complete\<close> are those of \<open>BaseProtocol\<close>.
\<close>

record entangled =
  channel :: channel
  key_length :: int
  security_threshold :: real
  num_pairs :: int
  alice_angles :: "real list"
  bob_angles :: "real list"
  alice_settings :: "int list"
  bob_settings :: "int list"
  alice_results :: "int list"
  bob_results :: "int list"
  final_key :: "int list"
  qber :: real
  is_secure :: bool
  is_complete :: bool

definition e91_init :: "channel \<Rightarrow> int \<Rightarrow> real \<Rightarrow> entangled" where
  "e91_init ch k threshold =
     \<lparr>channel = ch, key_length = k, security_threshold = threshold,
      num_pairs = max (k * 5) 500,
      alice_angles = [0, pi / 4, pi / 2],
      bob_angles = [pi / 4, pi / 2, 3 * pi / 4],
      alice_settings = [], bob_settings = [], alice_results = [], bob_results = [],
      final_key = [], qber = 0, is_secure = False, is_complete = False\<rparr>"

definition di_init :: "channel \<Rightarrow> int \<Rightarrow> real \<Rightarrow> entangled" where
  "di_init ch k threshold =
     \<lparr>channel = ch, key_length = k, security_threshold = threshold,
      num_pairs = max (k * 20) 2000,
      alice_angles = [0, 0, pi / 2],
      bob_angles = [0, pi / 4, - pi / 4],
      alice_settings = [], bob_settings = [], alice_results = [], bob_results = [],
      final_key = [], qber = 0, is_secure = False, is_complete = False\<rparr>"

text \<open>
  Modelled from the spec: \<open>BaseProtocol.reset\<close> (protocols/base.py is not among the
  sources) clears the fields of the protocol run and keeps the configuration.
\<close>

definition reset :: "entangled \<Rightarrow> entangled" where
  "reset s = s\<lparr>alice_settings := [], bob_settings := [], alice_results := [],
               entangled.bob_results := [], final_key := [], qber := 0,
               is_secure := False, is_complete := False\<rparr>"

text \<open>
  What one trial of \<open>measure_states\<close> draws: the two settings (\<open>secure_randint(0, 3)\<close>),
  the value of \<open>secure_random()\<close> compared with \<open>channel.loss\<close>, and what the
  \<open>MultiQubitState\<close> engine (core package) answers: the outcome \<open>res_a\<close> of Alice's
  measurement and, unless the engine returns no collapsed state (\<open>None\<close>), the outcome
  of Bob's. The depolarizing draws and the rotations only change the engine's state, so
  they are part of what the engine answers.
\<close>

record trial =
  a_setting :: int
  b_setting :: int
  loss_draw :: real
  res_a :: int
  res_b :: "int option"

definition pair_body :: "(nat \<Rightarrow> trial) \<Rightarrow> nat \<Rightarrow> entangled \<Rightarrow> error + entangled" where
  "pair_body draws i s =
     (if loss_draw (draws i) < loss (channel s) then
        Inr (s\<lparr>alice_results := alice_results s @ [- 1],
               entangled.bob_results := entangled.bob_results s @ [- 1]\<rparr>)
      else
        and_then (py_index (alice_settings s) (int i)) (\<lambda>a_idx.
        and_then (py_index (alice_angles s) a_idx) (\<lambda>angle_a.
          let s = s\<lparr>alice_results := alice_results s @ [res_a (draws i)]\<rparr>
          in case res_b (draws i) of
               None \<Rightarrow> Inr (s\<lparr>entangled.bob_results := entangled.bob_results s @ [- 1]\<rparr>)
             | Some rb \<Rightarrow>
                 and_then (py_index (bob_settings s) (int i)) (\<lambda>b_idx.
                 and_then (py_index (bob_angles s) b_idx) (\<lambda>angle_b.
                   Inr (s\<lparr>entangled.bob_results := entangled.bob_results s @ [rb]\<rparr>))))))"

text \<open>Both classes have the same \<open>measure_states\<close>, line for line.\<close>

definition pair_measure_states :: "entangled \<Rightarrow> (nat \<Rightarrow> trial) \<Rightarrow> error + (int list \<times> entangled)" where
  "pair_measure_states s draws =
     (let s = s\<lparr>alice_settings := [], bob_settings := [], alice_results := [],
                 entangled.bob_results := []\<rparr>;
          s = s\<lparr>alice_settings := map (\<lambda>i. a_setting (draws i)) (py_range (num_pairs s))\<rparr>;
          s = s\<lparr>bob_settings := map (\<lambda>i. b_setting (draws i)) (py_range (num_pairs s))\<rparr>
      in and_then (for_each (py_range (num_pairs s)) (pair_body draws) s) (\<lambda>s.
           Inr (map (\<lambda>r. if r \<noteq> - 1 then r else 0) (entangled.bob_results s), s)))"

definition e91_measure_states :: "entangled \<Rightarrow> (nat \<Rightarrow> trial) \<Rightarrow> error + (int list \<times> entangled)" where
  "e91_measure_states = pair_measure_states"

definition di_measure_states :: "entangled \<Rightarrow> (nat \<Rightarrow> trial) \<Rightarrow> error + (int list \<times> entangled)" where
  "di_measure_states = pair_measure_states"

text \<open>The test of line 160, \<open>abs(angle_a - angle_b) < 1e-6\<close>.\<close>

definition angles_match :: "real \<Rightarrow> real \<Rightarrow> bool" where
  "angles_match angle_a angle_b = (\<bar>angle_a - angle_b\<bar> < 1 / 10 ^ 6)"

definition e91_sift_body :: "entangled \<Rightarrow> nat \<Rightarrow> int list \<times> int list \<Rightarrow> error + (int list \<times> int list)" where
  "e91_sift_body s i = (\<lambda>(alice_sifted, bob_sifted).
     and_then (py_index (alice_results s) (int i)) (\<lambda>ra.
     if ra = - 1 then Inr (alice_sifted, bob_sifted) else
     and_then (py_index (entangled.bob_results s) (int i)) (\<lambda>rb.
     if rb = - 1 then Inr (alice_sifted, bob_sifted) else
     and_then (py_index (alice_settings s) (int i)) (\<lambda>a_idx.
     and_then (py_index (bob_settings s) (int i)) (\<lambda>b_idx.
     and_then (py_index (alice_angles s) a_idx) (\<lambda>angle_a.
     and_then (py_index (bob_angles s) b_idx) (\<lambda>angle_b.
       if angles_match angle_a angle_b
       then Inr (alice_sifted @ [ra], bob_sifted @ [rb])
       else Inr (alice_sifted, bob_sifted))))))))"

definition e91_sift_keys :: "entangled \<Rightarrow> error + (int list \<times> int list)" where
  "e91_sift_keys s =
     for_each (py_range (int (length (alice_results s)))) (e91_sift_body s) ([], [])"

definition di_sift_body :: "entangled \<Rightarrow> nat \<Rightarrow> int list \<times> int list \<Rightarrow> error + (int list \<times> int list)" where
  "di_sift_body s i = (\<lambda>(alice_sifted, bob_sifted).
     and_then (py_index (alice_results s) (int i)) (\<lambda>ra.
     if ra = - 1 then Inr (alice_sifted, bob_sifted) else
     and_then (py_index (entangled.bob_results s) (int i)) (\<lambda>rb.
     if rb = - 1 then Inr (alice_sifted, bob_sifted) else
     and_then (py_index (alice_settings s) (int i)) (\<lambda>a_idx.
     if a_idx \<noteq> 0 then Inr (alice_sifted, bob_sifted) else
     and_then (py_index (bob_settings s) (int i)) (\<lambda>b_idx.
     if b_idx \<noteq> 0 then Inr (alice_sifted, bob_sifted)
     else Inr (alice_sifted @ [ra], bob_sifted @ [rb]))))))"

definition di_sift_keys :: "entangled \<Rightarrow> error + (int list \<times> int list)" where
  "di_sift_keys s =
     for_each (py_range (int (length (alice_results s)))) (di_sift_body s) ([], [])"

text \<open>The mismatch rate of two sifted keys, \<open>1.0\<close> when there is no sifted bit.\<close>

definition mismatch_rate :: "int list \<times> int list \<Rightarrow> real" where
  "mismatch_rate = (\<lambda>(alice_sifted, bob_sifted).
     if alice_sifted = [] then 1.0
     else real (length (filter (\<lambda>(a, b). a \<noteq> b) (zip alice_sifted bob_sifted)))
            / real (length alice_sifted))"

definition e91_estimate_qber :: "entangled \<Rightarrow> error + real" where
  "e91_estimate_qber s = and_then (e91_sift_keys s) (\<lambda>keys. Inr (mismatch_rate keys))"

definition di_estimate_qber :: "entangled \<Rightarrow> error + real" where
  "di_estimate_qber s = and_then (di_sift_keys s) (\<lambda>keys. Inr (mismatch_rate keys))"

text \<open>\<open>d.get(key, default)\<close>.\<close>

definition dict_get :: "('k \<rightharpoonup> 'v) \<Rightarrow> 'k \<Rightarrow> 'v \<Rightarrow> 'v" where
  "dict_get d k dflt = (case d k of None \<Rightarrow> dflt | Some v \<Rightarrow> v)"

text \<open>\<open>E = 2 * (matches / total) - 1\<close>, and \<open>0.0\<close> for a setting pair with no trial.\<close>

definition correlation :: "nat \<Rightarrow> nat \<Rightarrow> real" where
  "correlation matches total_n =
     (if total_n > 0 then 2 * (real matches / real total_n) - 1 else 0.0)"

record e91_bell_stats =
  s_value :: real
  is_violated :: bool
  estimated_qber :: real
  correlation_values :: "int \<times> int \<rightharpoonup> real"

definition e91_count_body :: "entangled \<Rightarrow> int \<Rightarrow> int \<Rightarrow> nat \<Rightarrow> nat \<times> nat \<Rightarrow> error + (nat \<times> nat)" where
  "e91_count_body s a_target b_target i = (\<lambda>(matches, total_n).
     and_then (py_index (alice_results s) (int i)) (\<lambda>ra.
     if ra = - 1 then Inr (matches, total_n) else
     and_then (py_index (alice_settings s) (int i)) (\<lambda>a_idx.
     if a_idx \<noteq> a_target then Inr (matches, total_n) else
     and_then (py_index (bob_settings s) (int i)) (\<lambda>b_idx.
     if b_idx \<noteq> b_target then Inr (matches, total_n) else
     and_then (py_index (entangled.bob_results s) (int i)) (\<lambda>rb.
       Inr (if ra = rb then matches + 1 else matches, total_n + 1))))))"

definition e91_pair_body :: "entangled \<Rightarrow> int \<times> int \<Rightarrow> (int \<times> int \<rightharpoonup> real) \<Rightarrow> error + (int \<times> int \<rightharpoonup> real)" where
  "e91_pair_body s = (\<lambda>(a_target, b_target) correlations.
     and_then (for_each (py_range (int (length (alice_results s))))
                 (e91_count_body s a_target b_target) (0, 0)) (\<lambda>(matches, total_n).
       Inr (correlations((a_target, b_target) \<mapsto> correlation matches total_n))))"

definition e91_test_bell_inequality :: "entangled \<Rightarrow> error + e91_bell_stats" where
  "e91_test_bell_inequality s =
     and_then (for_each [(0, 0), (0, 2), (2, 0), (2, 2)] (e91_pair_body s) Map.empty)
       (\<lambda>correlations.
          let e_a1_b1 = dict_get correlations (0, 0) 0;
              e_a1_b3 = dict_get correlations (0, 2) 0;
              e_a3_b1 = dict_get correlations (2, 0) 0;
              e_a3_b3 = dict_get correlations (2, 2) 0;
              s_val = e_a1_b1 - e_a1_b3 + e_a3_b1 + e_a3_b3
          in Inr \<lparr>s_value = s_val,
                  is_violated = (\<bar>s_val\<bar> > 2.0),
                  estimated_qber = 0.5 * (1 - \<bar>s_val\<bar> / (2 * sqrt 2)),
                  correlation_values = correlations\<rparr>)"

text \<open>What \<open>execute\<close> returns, next to the updated object.\<close>

record e91_result =
  final_key :: "int list"
  qber :: real
  is_secure :: bool
  bell_test :: e91_bell_stats
  raw_key_length :: nat

definition e91_execute :: "entangled \<Rightarrow> (nat \<Rightarrow> trial) \<Rightarrow> error + (e91_result \<times> entangled)" where
  "e91_execute s draws =
     (let s = reset s
      in and_then (e91_measure_states s draws) (\<lambda>(_, s).
         and_then (e91_test_bell_inequality s) (\<lambda>bell_stats.
         let s = s\<lparr>entangled.is_secure := is_violated bell_stats\<rparr>
         in and_then (e91_sift_keys s) (\<lambda>(alice_key, bob_key).
            let s = s\<lparr>entangled.final_key := py_slice_to alice_key (entangled.key_length s)\<rparr>
            in and_then (e91_estimate_qber s) (\<lambda>q.
               let s = s\<lparr>entangled.qber := q, is_complete := True\<rparr>
               in Inr (\<lparr>final_key = entangled.final_key s,
                        qber = entangled.qber s,
                        is_secure = entangled.is_secure s,
                        bell_test = bell_stats,
                        raw_key_length = length alice_key\<rparr>, s))))))"

text \<open>
  \<open>DeviceIndependentQKD.test_bell_inequality\<close>: one pass over the trials fills
  \<open>counts\<close>, a dict from the pair of test settings to \<open>{"match": m, "total": t}\<close>.
\<close>

record tally =
  tally_match :: nat
  tally_total :: nat

definition di_count_body :: "entangled \<Rightarrow> nat \<Rightarrow> (int \<times> int \<rightharpoonup> tally) \<Rightarrow> error + (int \<times> int \<rightharpoonup> tally)" where
  "di_count_body s i counts =
     and_then (py_index (alice_results s) (int i)) (\<lambda>ra.
     if ra = - 1 then Inr counts else
     and_then (py_index (alice_settings s) (int i)) (\<lambda>a_idx.
     and_then (py_index (bob_settings s) (int i)) (\<lambda>b_idx.
     if a_idx = 0 \<or> b_idx = 0 then Inr counts else
     let a = a_idx - 1; b = b_idx - 1
     in and_then (py_index (entangled.bob_results s) (int i)) (\<lambda>rb.
        let key = (a, b);
            c = (case counts key of None \<Rightarrow> \<lparr>tally_match = 0, tally_total = 0\<rparr> | Some c \<Rightarrow> c);
            c = c\<lparr>tally_total := tally_total c + 1\<rparr>;
            c = (if ra = rb then c\<lparr>tally_match := tally_match c + 1\<rparr> else c)
        in Inr (counts(key \<mapsto> c))))))"

definition di_correlation :: "(int \<times> int \<rightharpoonup> tally) \<Rightarrow> int \<times> int \<Rightarrow> real" where
  "di_correlation counts key =
     (case counts key of
        None \<Rightarrow> 0.0
      | Some c \<Rightarrow> correlation (tally_match c) (tally_total c))"

record di_bell_stats =
  s_value :: real
  e00 :: real
  e01 :: real
  e10 :: real
  e11 :: real

definition di_test_bell_inequality :: "entangled \<Rightarrow> error + di_bell_stats" where
  "di_test_bell_inequality s =
     and_then (for_each (py_range (int (length (alice_results s)))) (di_count_body s) Map.empty)
       (\<lambda>counts.
          let correlations =
                fold (\<lambda>a d. fold (\<lambda>b d. d((a, b) \<mapsto> di_correlation counts (a, b))) [0, 1] d)
                  [0, 1] Map.empty;
              v00 = dict_get correlations (0, 0) 0;
              v01 = dict_get correlations (0, 1) 0;
              v10 = dict_get correlations (1, 0) 0;
              v11 = dict_get correlations (1, 1) 0;
              s_val = v00 + v01 + v10 - v11
          in Inr \<lparr>s_value = s_val, e00 = v00, e01 = v01, e10 = v10, e11 = v11\<rparr>)"

record di_result =
  final_key :: "int list"
  qber :: real
  is_secure :: bool
  bell_test :: di_bell_stats
  raw_key_length :: nat

definition di_execute :: "entangled \<Rightarrow> (nat \<Rightarrow> trial) \<Rightarrow> error + (di_result \<times> entangled)" where
  "di_execute s draws =
     (let s = reset s
      in and_then (di_measure_states s draws) (\<lambda>(_, s).
         and_then (di_test_bell_inequality s) (\<lambda>bell_stats.
         let s = s\<lparr>entangled.is_secure :=
                     (\<bar>di_bell_stats.s_value bell_stats\<bar> > security_threshold s)\<rparr>
         in and_then (di_sift_keys s) (\<lambda>(alice_key, bob_key).
            let s = s\<lparr>entangled.final_key := py_slice_to alice_key (entangled.key_length s)\<rparr>
            in and_then (di_estimate_qber s) (\<lambda>q.
               let s = s\<lparr>entangled.qber := q, is_complete := True\<rparr>
               in Inr (\<lparr>final_key = entangled.final_key s,
                        qber = entangled.qber s,
                        is_secure = entangled.is_secure s,
                        bell_test = bell_stats,
                        raw_key_length = length alice_key\<rparr>, s))))))"

section \<open>CV-QKD (protocols/cv_qkd.py)\<close>

record cvqkd =
  channel :: channel
  key_length :: int
  security_threshold :: real
  modulation_variance :: real
  homodyne_efficiency :: real
  excess_noise :: real
  block_size :: int
  alice_x :: "real list"
  alice_p :: "real list"
  bob_measurements :: "real list"
  bob_bases :: "int list"
  final_key :: "int list"
  qber :: real
  is_secure :: bool
  is_complete :: bool

definition cv_init :: "channel \<Rightarrow> int \<Rightarrow> real \<Rightarrow> real \<Rightarrow> real \<Rightarrow> real \<Rightarrow> cvqkd" where
  "cv_init ch k threshold variance efficiency noise =
     \<lparr>channel = ch, key_length = k, security_threshold = threshold,
      modulation_variance = variance, homodyne_efficiency = efficiency,
      excess_noise = noise, block_size = max 10000 (k * 100),
      alice_x = [], alice_p = [], bob_measurements = [], bob_bases = [],
      final_key = [], qber = 0, is_secure = False, is_complete = False\<rparr>"


text \<open>
  One-dimensional numpy arrays are lists. Operands of an elementwise operation are
  broadcast: an array of one element fits any length, other lengths must agree, or the
  operation raises \<open>ValueError\<close>.
\<close>

definition np_shape :: "nat list \<Rightarrow> error + nat" where
  "np_shape ls =
     (case filter (\<lambda>l. l \<noteq> 1) ls of
        [] \<Rightarrow> Inr 1
      | n # rest \<Rightarrow> if list_all (\<lambda>m. m = n) rest then Inr n else Inl ValueError)"

definition np_broadcast :: "nat \<Rightarrow> 'a list \<Rightarrow> 'a list" where
  "np_broadcast n xs = (if length xs = n then xs else replicate n (hd xs))"

definition np_where :: "bool list \<Rightarrow> 'a list \<Rightarrow> 'a list \<Rightarrow> error + 'a list" where
  "np_where c xs ys =
     and_then (np_shape [length c, length xs, length ys]) (\<lambda>n.
       Inr (map (\<lambda>(b, x, y). if b then x else y)
              (zip (np_broadcast n c) (zip (np_broadcast n xs) (np_broadcast n ys)))))"

definition np_add :: "real list \<Rightarrow> real list \<Rightarrow> error + real list" where
  "np_add xs ys =
     and_then (np_shape [length xs, length ys]) (\<lambda>n.
       Inr (map (\<lambda>(x, y). x + y) (zip (np_broadcast n xs) (np_broadcast n ys))))"

definition np_scale :: "real \<Rightarrow> real list \<Rightarrow> real list" where
  "np_scale c xs = map (\<lambda>x. c * x) xs"

text \<open>
  An array of \<open>n\<close> draws of a generator: \<open>draw j\<close> is its \<open>j\<close>-th element. A negative
  size raises.
\<close>

definition np_draws :: "(nat \<Rightarrow> 'a) \<Rightarrow> int \<Rightarrow> error + 'a list" where
  "np_draws draw n = (if n < 0 then Inl ValueError else Inr (map draw [0..<nat n]))"

text \<open>
  \<open>prepare_states\<close>: \<open>x_draw\<close> and \<open>p_draw\<close> are the two arrays that the generator
  seeded from \<open>secrets.randbits(128)\<close> returns.
\<close>

definition cv_prepare_states :: "cvqkd \<Rightarrow> (nat \<Rightarrow> real) \<Rightarrow> (nat \<Rightarrow> real) \<Rightarrow> error + (qubit list \<times> cvqkd)" where
  "cv_prepare_states s x_draw p_draw =
     and_then (np_draws x_draw (block_size s)) (\<lambda>xs.
     and_then (np_draws p_draw (block_size s)) (\<lambda>ps.
       let s = s\<lparr>alice_x := xs, alice_p := ps\<rparr>
       in Inr (replicate (nat (block_size s)) Qubit_zero, s)))"

text \<open>
  \<open>measure_states\<close>: \<open>np_random_normal k\<close> is the array that the \<open>k\<close>-th call of
  \<open>np.random.normal\<close> in the method returns (numpy's process-wide generator), and
  \<open>bob_draw\<close> the array of \<open>rng_bob.integers(0, 2, n)\<close>, whose generator is seeded
  from \<open>secrets.randbits(128)\<close>.
\<close>

definition cv_measure_states :: "cvqkd \<Rightarrow> (nat \<Rightarrow> nat \<Rightarrow> real) \<Rightarrow> (nat \<Rightarrow> int) \<Rightarrow> error + (int list \<times> cvqkd)" where
  "cv_measure_states s np_random_normal bob_draw =
     (let n = block_size s;
          transmission = 10 powr (- (loss_coefficient (channel s) * distance (channel s)) / 10);
          t = sqrt transmission
      in and_then (np_draws (np_random_normal 0) n) (\<lambda>vacuum_noise_x.
         and_then (np_draws (np_random_normal 1) n) (\<lambda>vacuum_noise_p.
         and_then (np_draws (np_random_normal 2) n) (\<lambda>excess_noise_x.
         and_then (np_draws (np_random_normal 3) n) (\<lambda>excess_noise_p.
         and_then (np_add (np_scale t (alice_x s)) (np_scale (sqrt (1 - t\<^sup>2)) vacuum_noise_x)) (\<lambda>x0.
         and_then (np_add x0 excess_noise_x) (\<lambda>bob_x_arrived.
         and_then (np_add (np_scale t (alice_p s)) (np_scale (sqrt (1 - t\<^sup>2)) vacuum_noise_p)) (\<lambda>p0.
         and_then (np_add p0 excess_noise_p) (\<lambda>bob_p_arrived.
         and_then (np_draws bob_draw n) (\<lambda>bases.
         let s = s\<lparr>bob_bases := bases\<rparr>
         in and_then (np_draws (np_random_normal 4) n) (\<lambda>detector_noise.
            let eta = homodyne_efficiency s
            in and_then (np_where (map (\<lambda>b. b = 0) (bob_bases s)) bob_x_arrived bob_p_arrived) (\<lambda>signal.
               and_then (np_draws (np_random_normal 5) n) (\<lambda>vacuum_detector.
               and_then (np_add (np_scale (sqrt eta) signal) (np_scale (sqrt (1 - eta)) vacuum_detector)) (\<lambda>m0.
               and_then (np_add m0 detector_noise) (\<lambda>measured.
                 Inr (replicate (nat n) 0, s\<lparr>bob_measurements := measured\<rparr>))))))))))))))))"

definition cv_sift_keys :: "cvqkd \<Rightarrow> error + (int list \<times> int list)" where
  "cv_sift_keys s =
     and_then (np_where (map (\<lambda>b. b = 0) (bob_bases s)) (alice_x s) (alice_p s))
       (\<lambda>alice_sifted_float.
          let bob_sifted_float = bob_measurements s;
              alice_sifted_int = map (\<lambda>x. if x > 0 then 1 else 0) alice_sifted_float;
              bob_sifted_int = map (\<lambda>x. if x > 0 then 1 else 0) bob_sifted_float
          in Inr (alice_sifted_int, bob_sifted_int))"



record cv_result =
  raw_key_length :: nat
  final_key :: "int list"
  qber :: real
  is_secure :: bool
  snr :: real
  theoretical_capacity :: real


section \<open>Notions the properties are stated with\<close>

subsection \<open>SARG04\<close>

text \<open>The four state strings, the string of a prepared qubit, the basis of a state.\<close>

definition state_strings :: "string set" where
  "state_strings = {''0'', ''1'', ''+'', ''-''}"

definition state_of_qubit :: "qubit \<Rightarrow> string" where
  "state_of_qubit q = (case q of Qubit_zero \<Rightarrow> ''0'' | Qubit_one \<Rightarrow> ''1''
                       | Qubit_plus \<Rightarrow> ''+'' | Qubit_minus \<Rightarrow> ''-'')"

definition basis_of_state :: "string \<Rightarrow> string" where
  "basis_of_state st = (if st = ''0'' \<or> st = ''1'' then ''computational'' else ''hadamard'')"

text \<open>
  What an announced pair has to be for the qubit \<open>q\<close> sent for the bit \<open>b\<close>: two
  distinct, non-orthogonal state strings, one the sent state, which encodes \<open>b\<close>, the
  other in the opposite basis and encoding \<open>1 - b\<close>.
\<close>

definition announced_pair_ok :: "qubit \<Rightarrow> int \<Rightarrow> string \<times> string \<Rightarrow> bool" where
  "announced_pair_ok q b pair =
     (let s1 = fst pair; s2 = snd pair; sent = state_of_qubit q;
          partner = (if s1 = sent then s2 else s1)
      in s1 \<in> state_strings \<and> s2 \<in> state_strings \<and> s1 \<noteq> s2 \<and> \<not> are_orthogonal s1 s2
         \<and> (s1 = sent \<or> s2 = sent)
         \<and> get_bit_from_state sent = Inr b
         \<and> basis_of_state partner \<noteq> basis_of_state sent
         \<and> get_bit_from_state partner = Inr (1 - b))"

text \<open>The pair that one iteration of \<open>prepare_states\<close> announces.\<close>

definition announce :: "prep_draw \<Rightarrow> string \<times> string" where
  "announce d = (case encode (basis_draw d) (bit_draw d) of (q, sent, partner) \<Rightarrow>
      if order_draw d = 0 then (sent, partner) else (partner, sent))"

text \<open>
  Index \<open>i\<close> of a SARG04 run: the receiver recorded a basis and a result; the string of
  the state he measured; orthogonality to exactly one member of a pair, and the other
  member.
\<close>

definition recorded :: "sarg04 \<Rightarrow> nat \<Rightarrow> bool" where
  "recorded s i = (sarg04.bob_bases s ! i \<noteq> None \<and> sarg04.bob_results s ! i \<noteq> None)"

definition bob_state :: "sarg04 \<Rightarrow> nat \<Rightarrow> string" where
  "bob_state s i = measured_state (the (sarg04.bob_bases s ! i)) (the (sarg04.bob_results s ! i))"

definition orthogonal_to_exactly_one :: "string \<Rightarrow> string \<times> string \<Rightarrow> bool" where
  "orthogonal_to_exactly_one m pair = (are_orthogonal m (fst pair) \<noteq> are_orthogonal m (snd pair))"

definition other_member :: "string \<Rightarrow> string \<times> string \<Rightarrow> string" where
  "other_member m pair = (if are_orthogonal m (fst pair) then snd pair else fst pair)"

definition conclusive :: "sarg04 \<Rightarrow> nat \<Rightarrow> bool" where
  "conclusive s i = (recorded s i \<and> orthogonal_to_exactly_one (bob_state s i) (announced_sets s ! i))"

text \<open>
  The stored data of a run: the four lists reach \<open>num_qubits\<close> and the announced pairs
  are made of state strings, as \<open>prepare_states\<close> leaves them.
\<close>

definition sarg04_lists_ok :: "sarg04 \<Rightarrow> bool" where
  "sarg04_lists_ok s =
     (let n = nat (num_qubits s)
      in n \<le> length (sarg04.bob_bases s) \<and> n \<le> length (sarg04.bob_results s)
         \<and> n \<le> length (announced_sets s) \<and> n \<le> length (alice_bits s)
         \<and> list_all (\<lambda>pair. fst pair \<in> state_strings \<and> snd pair \<in> state_strings)
              (take n (announced_sets s)))"

text \<open>Concrete runs, for the examples below.\<close>

definition example_prep_draws :: "nat \<Rightarrow> prep_draw" where
  "example_prep_draws i =
     \<lparr>bit_draw = int (i mod 2),
      basis_draw = (if i < 3 then ''computational'' else ''hadamard''),
      order_draw = (if i < 2 then 0 else 1)\<rparr>"

definition sarg04_example :: sarg04 where
  "sarg04_example =
     \<lparr>sarg04.key_length = 1, bases = [''computational'', ''hadamard''],
      sarg04.security_threshold = 11 / 100, num_qubits = 6,
      alice_bits = [0, 1, 0, 1, 0, 1],
      alice_bases = [''computational'', ''computational'', ''computational'', ''hadamard'',
                     ''hadamard'', ''hadamard''],
      sarg04.bob_results = [Some 0, None, Some 0, Some 1, Some 0, Some 1],
      sarg04.bob_bases = [Some ''hadamard'', None, Some ''computational'', Some ''computational'',
                          Some ''computational'', Some ''hadamard''],
      announced_sets = [(''0'', ''-''), (''1'', ''+''), (''-'', ''0''), (''0'', ''-''),
                        (''1'', ''+''), (''0'', ''-'')]\<rparr>"

subsection \<open>The entanglement-based protocols\<close>

text \<open>A recorded trial is lost when one of the two results is the sentinel \<open>-1\<close>.\<close>

definition lost_trial :: "entangled \<Rightarrow> nat \<Rightarrow> bool" where
  "lost_trial s i = (alice_results s ! i = - 1 \<or> entangled.bob_results s ! i = - 1)"

text \<open>The key-generation settings of E91 (Alice 1 with Bob 0, Alice 2 with Bob 1), and the
  trials that the two protocols are said to keep.\<close>

definition e91_key_pair :: "int \<Rightarrow> int \<Rightarrow> bool" where
  "e91_key_pair a b = ((a = 1 \<and> b = 0) \<or> (a = 2 \<and> b = 1))"

definition e91_kept :: "entangled \<Rightarrow> nat \<Rightarrow> bool" where
  "e91_kept s i = (\<not> lost_trial s i \<and> e91_key_pair (alice_settings s ! i) (bob_settings s ! i))"

definition di_kept :: "entangled \<Rightarrow> nat \<Rightarrow> bool" where
  "di_kept s i = (\<not> lost_trial s i \<and> alice_settings s ! i = 0 \<and> bob_settings s ! i = 0)"

text \<open>Recorded data as \<open>measure_states\<close> leaves it: four lists of one length, settings in
  \<open>{0, 1, 2}\<close>; and the angle lists that the constructor of E91 sets.\<close>

definition trials_ok :: "entangled \<Rightarrow> bool" where
  "trials_ok s =
     (length (alice_settings s) = length (alice_results s)
      \<and> length (bob_settings s) = length (alice_results s)
      \<and> length (entangled.bob_results s) = length (alice_results s))"

definition setting_ok :: "int \<Rightarrow> bool" where
  "setting_ok a = (a = 0 \<or> a = 1 \<or> a = 2)"

definition settings_ok :: "entangled \<Rightarrow> bool" where
  "settings_ok s = (list_all setting_ok (alice_settings s) \<and> list_all setting_ok (bob_settings s))"

definition e91_angles :: "entangled \<Rightarrow> bool" where
  "e91_angles s = (alice_angles s = [0, pi / 4, pi / 2] \<and> bob_angles s = [pi / 4, pi / 2, 3 * pi / 4])"

text \<open>The counts of a test pair \<open>(a, b)\<close> in E91: the trials that are not lost for Alice
  and have these settings, and those among them where the results agree; the
  correlation of the pair and the CHSH statistic.\<close>

definition agree :: "entangled \<Rightarrow> nat \<Rightarrow> bool" where
  "agree s i = (alice_results s ! i = entangled.bob_results s ! i)"

definition e91_hit :: "entangled \<Rightarrow> int \<Rightarrow> int \<Rightarrow> nat \<Rightarrow> bool" where
  "e91_hit s a b i =
     (alice_results s ! i \<noteq> - 1 \<and> alice_settings s ! i = a \<and> bob_settings s ! i = b)"

definition e91_total :: "entangled \<Rightarrow> int \<Rightarrow> int \<Rightarrow> nat" where
  "e91_total s a b = length (filter (e91_hit s a b) [0..<length (alice_results s)])"

definition e91_matches :: "entangled \<Rightarrow> int \<Rightarrow> int \<Rightarrow> nat" where
  "e91_matches s a b =
     length (filter (\<lambda>i. e91_hit s a b i \<and> agree s i) [0..<length (alice_results s)])"

definition e91_E :: "entangled \<Rightarrow> int \<Rightarrow> int \<Rightarrow> real" where
  "e91_E s a b = correlation (e91_matches s a b) (e91_total s a b)"

definition e91_S :: "entangled \<Rightarrow> real" where
  "e91_S s = e91_E s 0 0 - e91_E s 0 2 + e91_E s 2 0 + e91_E s 2 2"

text \<open>The same for DeviceIndependentQKD, whose test pairs are the settings 1 and 2 of both
  parties, renumbered 0 and 1.\<close>

definition di_hit :: "entangled \<Rightarrow> int \<Rightarrow> int \<Rightarrow> nat \<Rightarrow> bool" where
  "di_hit s a b i =
     (alice_results s ! i \<noteq> - 1 \<and> alice_settings s ! i \<noteq> 0 \<and> bob_settings s ! i \<noteq> 0
      \<and> alice_settings s ! i - 1 = a \<and> bob_settings s ! i - 1 = b)"

definition di_total :: "entangled \<Rightarrow> int \<Rightarrow> int \<Rightarrow> nat" where
  "di_total s a b = length (filter (di_hit s a b) [0..<length (alice_results s)])"

definition di_matches :: "entangled \<Rightarrow> int \<Rightarrow> int \<Rightarrow> nat" where
  "di_matches s a b =
     length (filter (\<lambda>i. di_hit s a b i \<and> agree s i) [0..<length (alice_results s)])"

definition di_E :: "entangled \<Rightarrow> int \<Rightarrow> int \<Rightarrow> real" where
  "di_E s a b = correlation (di_matches s a b) (di_total s a b)"

definition di_S :: "entangled \<Rightarrow> real" where
  "di_S s = di_E s 0 0 + di_E s 0 1 + di_E s 1 0 - di_E s 1 1"

text \<open>What the dict \<open>counts\<close> holds for a key, \<open>(0, 0)\<close> for an absent key.\<close>

definition tally_of :: "(int \<times> int \<rightharpoonup> tally) \<Rightarrow> int \<times> int \<Rightarrow> nat \<times> nat" where
  "tally_of counts key =
     (case counts key of None \<Rightarrow> (0, 0) | Some c \<Rightarrow> (tally_match c, tally_total c))"

text \<open>The draws of a run: settings in the range of \<open>secure_randint(0, 3)\<close>; objects whose
  two angle lists have three entries.\<close>

definition draws_ok :: "entangled \<Rightarrow> (nat \<Rightarrow> trial) \<Rightarrow> bool" where
  "draws_ok s draws =
     (\<forall>i < nat (num_pairs s). setting_ok (a_setting (draws i)) \<and> setting_ok (b_setting (draws i)))"

definition angles3 :: "entangled \<Rightarrow> bool" where
  "angles3 s = (length (alice_angles s) = 3 \<and> length (bob_angles s) = 3)"

text \<open>What \<open>measure_states\<close> records for the trial \<open>i\<close>, and the object it leaves.\<close>

definition lost :: "entangled \<Rightarrow> (nat \<Rightarrow> trial) \<Rightarrow> nat \<Rightarrow> bool" where
  "lost s draws i = (loss_draw (draws i) < loss (entangled.channel s))"

definition recorded_a :: "entangled \<Rightarrow> (nat \<Rightarrow> trial) \<Rightarrow> nat \<Rightarrow> int" where
  "recorded_a s draws i = (if lost s draws i then - 1 else res_a (draws i))"

definition recorded_b :: "entangled \<Rightarrow> (nat \<Rightarrow> trial) \<Rightarrow> nat \<Rightarrow> int" where
  "recorded_b s draws i =
     (if lost s draws i then - 1 else case res_b (draws i) of None \<Rightarrow> - 1 | Some rb \<Rightarrow> rb)"

definition measured :: "entangled \<Rightarrow> (nat \<Rightarrow> trial) \<Rightarrow> entangled" where
  "measured s draws =
     s\<lparr>alice_settings := map (\<lambda>i. a_setting (draws i)) [0..<nat (num_pairs s)],
       bob_settings := map (\<lambda>i. b_setting (draws i)) [0..<nat (num_pairs s)],
       alice_results := map (recorded_a s draws) [0..<nat (num_pairs s)],
       entangled.bob_results := map (recorded_b s draws) [0..<nat (num_pairs s)]\<rparr>"

text \<open>The sifted keys and the Bell record that \<open>sift_keys\<close> and \<open>test_bell_inequality\<close>
  are proved to return.\<close>

definition e91_keys :: "entangled \<Rightarrow> int list \<times> int list" where
  "e91_keys s =
     (map (\<lambda>i. alice_results s ! i) (filter (e91_kept s) [0..<length (alice_results s)]),
      map (\<lambda>i. entangled.bob_results s ! i) (filter (e91_kept s) [0..<length (alice_results s)]))"

definition di_keys :: "entangled \<Rightarrow> int list \<times> int list" where
  "di_keys s =
     (map (\<lambda>i. alice_results s ! i) (filter (di_kept s) [0..<length (alice_results s)]),
      map (\<lambda>i. entangled.bob_results s ! i) (filter (di_kept s) [0..<length (alice_results s)]))"

definition e91_stats :: "entangled \<Rightarrow> e91_bell_stats" where
  "e91_stats s =
     \<lparr>e91_bell_stats.s_value = e91_S s,
      is_violated = (\<bar>e91_S s\<bar> > 2),
      estimated_qber = 0.5 * (1 - \<bar>e91_S s\<bar> / (2 * sqrt 2)),
      correlation_values = [(0, 0) \<mapsto> e91_E s 0 0, (0, 2) \<mapsto> e91_E s 0 2,
                            (2, 0) \<mapsto> e91_E s 2 0, (2, 2) \<mapsto> e91_E s 2 2]\<rparr>"

definition di_stats :: "entangled \<Rightarrow> di_bell_stats" where
  "di_stats s =
     \<lparr>di_bell_stats.s_value = di_S s, e00 = di_E s 0 0, e01 = di_E s 0 1,
      e10 = di_E s 1 0, e11 = di_E s 1 1\<rparr>"

subsection \<open>CV-QKD\<close>

text \<open>
  The discretization by sign, the quadrature value the sender keeps at index \<open>i\<close>,
  and the capacity estimate with the key length \<open>execute\<close> derives from it.
\<close>

definition sign_bit :: "real \<Rightarrow> int" where
  "sign_bit x = (if x > 0 then 1 else 0)"

definition cv_sender_value :: "cvqkd \<Rightarrow> nat \<Rightarrow> real" where
  "cv_sender_value s i = (if cvqkd.bob_bases s ! i = 0 then alice_x s ! i else alice_p s ! i)"



text \<open>The value that \<open>measure_states\<close> stores at index \<open>j\<close> of \<open>bob_measurements\<close>.\<close>

definition cv_measured_value :: "cvqkd \<Rightarrow> (nat \<Rightarrow> nat \<Rightarrow> real) \<Rightarrow> (nat \<Rightarrow> int) \<Rightarrow> nat \<Rightarrow> real" where
  "cv_measured_value s g bd j =
     (let t = sqrt (10 powr (- (loss_coefficient (cvqkd.channel s) * distance (cvqkd.channel s)) / 10));
          eta = homodyne_efficiency s
      in sqrt eta *
           (if bd j = 0 then t * alice_x s ! j + sqrt (1 - t\<^sup>2) * g 0 j + g 2 j
            else t * alice_p s ! j + sqrt (1 - t\<^sup>2) * g 1 j + g 3 j)
         + sqrt (1 - eta) * g 5 j + g 4 j)"

subsection \<open>Concrete objects, recorded data and draws\<close>

text \<open>Objects of the two entanglement-based classes with recorded trials.\<close>

definition example_channel :: channel where
  "example_channel =
     \<lparr>loss = 0, noise_model = ''depolarizing'', noise_level = 0,
      loss_coefficient = 1 / 5, distance = 10\<rparr>"

definition e91_example :: entangled where
  "e91_example =
     (e91_init example_channel 20 (1 / 10))
       \<lparr>alice_settings := [1, 2, 0, 1, 2, 0], bob_settings := [0, 1, 0, 1, 0, 2],
        alice_results := [0, 1, - 1, 1, 0, 1], entangled.bob_results := [0, 1, - 1, 1, 0, 0]\<rparr>"

definition di_example :: entangled where
  "di_example =
     (di_init example_channel 20 2)
       \<lparr>alice_settings := [0, 0, 1, 2, 0], bob_settings := [0, 1, 0, 2, 0],
        alice_results := [1, 0, 0, 1, - 1], entangled.bob_results := [1, 0, 0, 0, - 1]\<rparr>"

text \<open>Recorded data on which every test pair agrees or disagrees with certainty.\<close>

definition e91_chsh_example :: entangled where
  "e91_chsh_example =
     (e91_init example_channel 20 (1 / 10))
       \<lparr>alice_settings := [0, 0, 2, 2], bob_settings := [0, 2, 0, 2],
        alice_results := [0, 0, 0, 0], entangled.bob_results := [0, 1, 0, 0]\<rparr>"

definition di_chsh_example :: entangled where
  "di_chsh_example =
     (di_init example_channel 20 2)
       \<lparr>alice_settings := [1, 1, 2, 2], bob_settings := [1, 2, 1, 2],
        alice_results := [0, 0, 0, 0], entangled.bob_results := [0, 0, 0, 1]\<rparr>"

text \<open>
  Draws of lossless runs: every trial with the settings 0 and 0, and trials that cycle
  through the test pairs (0, 0), (2, 0) and (2, 2); both parties always read 0.
\<close>

definition same_setting_draws :: "nat \<Rightarrow> trial" where
  "same_setting_draws i =
     \<lparr>a_setting = 0, b_setting = 0, loss_draw = 1 / 2, res_a = 0, res_b = Some 0\<rparr>"

definition test_only_draws :: "nat \<Rightarrow> trial" where
  "test_only_draws i =
     \<lparr>a_setting = (if i mod 3 = 0 then 0 else 2),
      b_setting = (if i mod 3 = 2 then 2 else 0),
      loss_draw = 1 / 2, res_a = 0, res_b = Some 0\<rparr>"

definition e91_object :: entangled where
  "e91_object = e91_init example_channel 20 (1 / 10)"

definition di_object :: entangled where
  "di_object = di_init example_channel 20 2"


text \<open>A CV-QKD object with the default parameters, and draws that are all zero.\<close>

definition cv_object :: cvqkd where
  "cv_object = cv_init example_channel 100 (1 / 10) 4 (9 / 10) (1 / 100)"

definition zero_draws :: "nat \<Rightarrow> real" where
  "zero_draws j = 0"

definition zero_normal :: "nat \<Rightarrow> nat \<Rightarrow> real" where
  "zero_normal k j = 0"

definition x_basis_draws :: "nat \<Rightarrow> int" where
  "x_basis_draws j = 0"



text \<open>
  A SARG04 transmission in which the second of six qubits is lost; a channel that
  loses a pair when the draw is below one tenth, and draws that lose the first pair.
\<close>

definition example_received :: "qubit option list" where
  "example_received =
     [Some Qubit_zero, None, Some Qubit_zero, Some Qubit_minus, Some Qubit_plus, Some Qubit_minus]"

definition example_choice :: "nat \<Rightarrow> string" where
  "example_choice k = (if k = 0 \<or> k = 4 then ''hadamard'' else ''computational'')"

definition example_measure :: "nat \<Rightarrow> qubit \<Rightarrow> string \<Rightarrow> int" where
  "example_measure k q basis = (if k = 2 \<or> k = 4 then 1 else 0)"




text \<open>
  Stored data of a SARG04 run of twelve qubits, all received and all conclusive, with
  one error at index 0; two answers of \<open>np.random.choice\<close>, both samples without
  replacement.
\<close>

definition noisy_example :: sarg04 where
  "noisy_example =
     \<lparr>sarg04.key_length = 2, bases = [''computational'', ''hadamard''],
      sarg04.security_threshold = 11 / 100, num_qubits = 12,
      alice_bits = [0, 0, 0, 0, 0, 0, 0, 0, 0, 0, 0, 0],
      alice_bases = [''computational'', ''computational'', ''computational'', ''computational'',
                     ''computational'', ''computational'', ''computational'', ''computational'',
                     ''computational'', ''computational'', ''computational'', ''computational''],
      sarg04.bob_results = [Some 1, Some 0, Some 0, Some 0, Some 0, Some 0,
                            Some 0, Some 0, Some 0, Some 0, Some 0, Some 0],
      sarg04.bob_bases = [Some ''computational'', Some ''hadamard'', Some ''hadamard'',
                          Some ''hadamard'', Some ''hadamard'', Some ''hadamard'',
                          Some ''hadamard'', Some ''hadamard'', Some ''hadamard'',
                          Some ''hadamard'', Some ''hadamard'', Some ''hadamard''],
      announced_sets = [(''0'', ''-''), (''0'', ''-''), (''0'', ''-''), (''0'', ''-''),
                        (''0'', ''-''), (''0'', ''-''), (''0'', ''-''), (''0'', ''-''),
                        (''0'', ''-''), (''0'', ''-''), (''0'', ''-''), (''0'', ''-'')]\<rparr>"

definition first_indices :: "nat \<Rightarrow> nat \<Rightarrow> int list" where
  "first_indices n k = map int [0..<k]"

definition next_indices :: "nat \<Rightarrow> nat \<Rightarrow> int list" where
  "next_indices n k = map int [1..<Suc k]"

text \<open>
  The CV-QKD object after \<open>prepare_states\<close> drew zeros, and a numpy generator whose
  fifth array (the detector noise) is all ones.
\<close>

definition cv_prepared :: cvqkd where
  "cv_prepared =
     cv_object\<lparr>alice_x := map zero_draws [0..<10000], alice_p := map zero_draws [0..<10000]\<rparr>"

definition detector_normal :: "nat \<Rightarrow> nat \<Rightarrow> real" where
  "detector_normal k j = (if k = 4 then 1 else 0)"

section \<open>Loops and indexing\<close>

lemma for_each_append:
  "for_each (xs @ ys) body s = and_then (for_each xs body s) (for_each ys body)"
  by (induction xs arbitrary: s) (auto simp: and_then_def split: sum.splits)

lemma for_each_sift:
  assumes "\<And>i a b. i \<in> set xs \<Longrightarrow>
             body i (a, b) = Inr (if P i then (a @ [f i], b @ [g i]) else (a, b))"
  shows "for_each xs body (a, b) = Inr (a @ map f (filter P xs), b @ map g (filter P xs))"
  using assms by (induction xs arbitrary: a b) auto

lemma py_index_nat: "i < length xs \<Longrightarrow> py_index xs (int i) = Inr (xs ! i)"
  by (simp add: py_index_def)

lemma upt6: "[0..<6] = [0, 1, 2, 3, 4, 5]"
  by (simp add: upt_rec)

section \<open>SARG04: the announced pairs and the sifting rule\<close>

lemma fold_prepare_body:
  "fold (sarg04_prepare_body draws) [0..<n] (qs, s) =
     (qs @ map (\<lambda>i. fst (encode (basis_draw (draws i)) (bit_draw (draws i)))) [0..<n],
      s\<lparr>alice_bits := alice_bits s @ map (\<lambda>i. bit_draw (draws i)) [0..<n],
        alice_bases := alice_bases s @ map (\<lambda>i. basis_draw (draws i)) [0..<n],
        announced_sets := announced_sets s @ map (\<lambda>i. announce (draws i)) [0..<n]\<rparr>)"
proof (induction n)
  case 0
  show ?case by simp
next
  case (Suc n)
  have "fold (sarg04_prepare_body draws) [0..<Suc n] (qs, s) =
          sarg04_prepare_body draws n (fold (sarg04_prepare_body draws) [0..<n] (qs, s))"
    by simp
  also have "\<dots> =
     (qs @ map (\<lambda>i. fst (encode (basis_draw (draws i)) (bit_draw (draws i)))) [0..<Suc n],
      s\<lparr>alice_bits := alice_bits s @ map (\<lambda>i. bit_draw (draws i)) [0..<Suc n],
        alice_bases := alice_bases s @ map (\<lambda>i. basis_draw (draws i)) [0..<Suc n],
        announced_sets := announced_sets s @ map (\<lambda>i. announce (draws i)) [0..<Suc n]\<rparr>)"
    unfolding Suc by (simp add: sarg04_prepare_body_def announce_def Let_def split: prod.splits)
  finally show ?case .
qed

lemma announce_ok:
  assumes "bit_draw d = 0 \<or> bit_draw d = 1"
  shows "announced_pair_ok (fst (encode (basis_draw d) (bit_draw d))) (bit_draw d) (announce d)"
  using assms
  by (auto simp: announced_pair_ok_def announce_def encode_def state_strings_def
      state_of_qubit_def are_orthogonal_def get_bit_from_state_def basis_of_state_def)

text \<open>
  C9. After \<open>prepare_states\<close>, where every bit drawn by \<open>secure_randint(0, 2)\<close> is 0 or
  1: \<open>alice_bits\<close>, \<open>alice_bases\<close>, \<open>announced_sets\<close> and the returned qubits all have
  length \<open>num_qubits\<close>, and at every index the announced pair consists of two distinct,
  non-orthogonal state strings, one of them the state sent, which encodes
  \<open>alice_bits[i]\<close>, the other in the opposite basis and encoding \<open>1 - alice_bits[i]\<close>.
\<close>

theorem sarg04_prepare_states_pairs:
  assumes "sarg04_prepare_states s draws = (qubits, s')"
    and "\<forall>i < nat (num_qubits s). bit_draw (draws i) = 0 \<or> bit_draw (draws i) = 1"
  shows "length (alice_bits s') = nat (num_qubits s)
       \<and> length (alice_bases s') = nat (num_qubits s)
       \<and> length (announced_sets s') = nat (num_qubits s)
       \<and> length qubits = nat (num_qubits s)
       \<and> (\<forall>i < nat (num_qubits s).
            announced_pair_ok (qubits ! i) (alice_bits s' ! i) (announced_sets s' ! i))"
proof -
  let ?n = "nat (num_qubits s)"
  from assms(1)
  have q: "qubits = map (\<lambda>i. fst (encode (basis_draw (draws i)) (bit_draw (draws i)))) [0..<?n]"
    and s': "s' = s\<lparr>alice_bits := map (\<lambda>i. bit_draw (draws i)) [0..<?n],
        alice_bases := map (\<lambda>i. basis_draw (draws i)) [0..<?n],
        announced_sets := map (\<lambda>i. announce (draws i)) [0..<?n]\<rparr>"
    by (simp_all add: sarg04_prepare_states_def py_range_def fold_prepare_body)
  show ?thesis
    using assms(2) by (simp add: q s' announce_ok)
qed

theorem sarg04_prepare_states_pairs_witness:
  "announced_sets (snd (sarg04_prepare_states (sarg04_init 1) example_prep_draws)) =
     [(''0'', ''-''), (''1'', ''+''), (''-'', ''0''), (''0'', ''-''), (''1'', ''+''), (''0'', ''-'')]
   \<and> length (fst (sarg04_prepare_states (sarg04_init 1) example_prep_draws)) = 6
   \<and> announced_pair_ok (fst (sarg04_prepare_states (sarg04_init 1) example_prep_draws) ! 3)
        (alice_bits (snd (sarg04_prepare_states (sarg04_init 1) example_prep_draws)) ! 3)
        (announced_sets (snd (sarg04_prepare_states (sarg04_init 1) example_prep_draws)) ! 3)"
proof -
  let ?r = "sarg04_prepare_states (sarg04_init 1) example_prep_draws"
  have n: "nat (num_qubits (sarg04_init 1)) = 6" by (simp add: sarg04_init_def)
  have bits: "\<forall>i < nat (num_qubits (sarg04_init 1)).
      bit_draw (example_prep_draws i) = 0 \<or> bit_draw (example_prep_draws i) = 1"
    by (auto simp: example_prep_draws_def)
  have run: "?r = (fst ?r, snd ?r)" by simp
  note t = sarg04_prepare_states_pairs[OF run bits, unfolded n]
  have a: "announced_sets (snd ?r) =
     [(''0'', ''-''), (''1'', ''+''), (''-'', ''0''), (''0'', ''-''), (''1'', ''+''), (''0'', ''-'')]"
    by (simp add: sarg04_prepare_states_def py_range_def n upt6 sarg04_prepare_body_def
        example_prep_draws_def encode_def sarg04_init_def)
  from t have "announced_pair_ok (fst ?r ! 3) (alice_bits (snd ?r) ! 3) (announced_sets (snd ?r) ! 3)"
    by simp
  with t a show ?thesis by simp
qed

lemma get_bit_valid: "st \<in> state_strings \<Longrightarrow> \<exists>b. get_bit_from_state st = Inr b"
  by (auto simp: state_strings_def get_bit_from_state_def)

lemma sarg04_sift_body_eval:
  assumes "i < length (sarg04.bob_bases s)" "i < length (sarg04.bob_results s)"
    "i < length (announced_sets s)" "i < length (alice_bits s)"
    "fst (announced_sets s ! i) \<in> state_strings" "snd (announced_sets s ! i) \<in> state_strings"
  shows "sarg04_sift_body s i (a, b) =
     Inr (if conclusive s i
          then (a @ [alice_bits s ! i],
                b @ [projr (get_bit_from_state (other_member (bob_state s i) (announced_sets s ! i)))])
          else (a, b))"
proof -
  obtain s1 s2 where p: "announced_sets s ! i = (s1, s2)"
    by (cases "announced_sets s ! i")
  from assms p obtain b1 b2
    where g: "get_bit_from_state s1 = Inr b1" "get_bit_from_state s2 = Inr b2"
    using get_bit_valid by fastforce
  show ?thesis
    using assms p g
    by (auto simp: sarg04_sift_body_def py_index_nat and_then_def conclusive_def recorded_def
        bob_state_def orthogonal_to_exactly_one_def other_member_def Let_def
        split: option.splits)
qed

lemma other_member_bit:
  assumes "fst pair \<in> state_strings" "snd pair \<in> state_strings"
  shows "Inr (projr (get_bit_from_state (other_member m pair))) =
         get_bit_from_state (other_member m pair)"
  using assms get_bit_valid[of "other_member m pair"] by (auto simp: other_member_def)

lemma sarg04_lists_ok_valid:
  assumes "sarg04_lists_ok s" and "i < nat (num_qubits s)"
  shows "fst (announced_sets s ! i) \<in> state_strings \<and> snd (announced_sets s ! i) \<in> state_strings"
proof -
  let ?n = "nat (num_qubits s)"
  from assms have "i < length (take ?n (announced_sets s))"
    by (simp add: sarg04_lists_ok_def Let_def)
  moreover from assms(1)
  have "\<forall>p \<in> set (take ?n (announced_sets s)). fst p \<in> state_strings \<and> snd p \<in> state_strings"
    by (simp add: sarg04_lists_ok_def Let_def list_all_iff)
  ultimately
  have "fst (take ?n (announced_sets s) ! i) \<in> state_strings
      \<and> snd (take ?n (announced_sets s) ! i) \<in> state_strings"
    using nth_mem by blast
  with assms(2) show ?thesis by simp
qed

lemma sarg04_sift_keys_run:
  assumes "sarg04_lists_ok s"
  shows "sarg04_sift_keys s =
      Inr (map (\<lambda>i. alice_bits s ! i) (filter (conclusive s) [0..<nat (num_qubits s)]),
           map (\<lambda>i. projr (get_bit_from_state (other_member (bob_state s i) (announced_sets s ! i))))
             (filter (conclusive s) [0..<nat (num_qubits s)]))"
proof -
  let ?n = "nat (num_qubits s)"
  let ?g = "\<lambda>i. projr (get_bit_from_state (other_member (bob_state s i) (announced_sets s ! i)))"
  have step: "sarg04_sift_body s i (a, b) =
      Inr (if conclusive s i then (a @ [alice_bits s ! i], b @ [?g i]) else (a, b))"
    if "i \<in> set [0..<?n]" for i a b
  proof -
    from that have i: "i < ?n" by simp
    with assms have "i < length (sarg04.bob_bases s)" "i < length (sarg04.bob_results s)"
      "i < length (announced_sets s)" "i < length (alice_bits s)"
      by (simp_all add: sarg04_lists_ok_def Let_def)
    then show ?thesis
      using sarg04_lists_ok_valid[OF assms i] by (simp add: sarg04_sift_body_eval)
  qed
  show ?thesis
    unfolding sarg04_sift_keys_def py_range_def
    using for_each_sift[of "[0..<?n]" "sarg04_sift_body s" "conclusive s"
        "\<lambda>i. alice_bits s ! i" ?g "[]" "[]", OF step]
    by simp
qed

text \<open>
  C1. On the stored data of a SARG04 run, \<open>sift_keys\<close> keeps exactly the indices at
  which the receiver recorded a basis and a result and his measured state is orthogonal
  to exactly one member of the announced pair; at a kept index the sender's sifted bit
  is \<open>alice_bits[i]\<close> and the receiver's is the bit encoded by the other member.
\<close>

theorem sarg04_sift_keys_conclusive:
  assumes "sarg04_lists_ok s"
  shows "\<exists>alice_sifted bob_sifted.
           sarg04_sift_keys s = Inr (alice_sifted, bob_sifted)
         \<and> alice_sifted =
             map (\<lambda>i. alice_bits s ! i) (filter (conclusive s) [0..<nat (num_qubits s)])
         \<and> map Inr bob_sifted =
             map (\<lambda>i. get_bit_from_state (other_member (bob_state s i) (announced_sets s ! i)))
               (filter (conclusive s) [0..<nat (num_qubits s)])"
proof -
  let ?n = "nat (num_qubits s)"
  let ?g = "\<lambda>i. projr (get_bit_from_state (other_member (bob_state s i) (announced_sets s ! i)))"
  have "map Inr (map ?g (filter (conclusive s) [0..<?n])) =
      map (\<lambda>i. get_bit_from_state (other_member (bob_state s i) (announced_sets s ! i)))
        (filter (conclusive s) [0..<?n])"
    using sarg04_lists_ok_valid[OF assms] by (simp add: other_member_bit)
  with sarg04_sift_keys_run[OF assms] show ?thesis by blast
qed

lemma sarg04_example_ok: "sarg04_lists_ok sarg04_example"
  by (simp add: sarg04_lists_ok_def sarg04_example_def state_strings_def)

lemma sarg04_example_conclusive: "filter (conclusive sarg04_example) [0..<6] = [0, 3, 4]"
  by (simp add: upt6 conclusive_def recorded_def bob_state_def orthogonal_to_exactly_one_def
      measured_state_def are_orthogonal_def sarg04_example_def)

theorem sarg04_sift_keys_conclusive_witness:
  "sarg04_lists_ok sarg04_example
   \<and> sarg04_sift_keys sarg04_example = Inr ([0, 1, 0], [0, 1, 0])"
proof -
  from sarg04_sift_keys_conclusive[OF sarg04_example_ok] obtain a b where
    r: "sarg04_sift_keys sarg04_example = Inr (a, b)"
    and a: "a = map (\<lambda>i. alice_bits sarg04_example ! i)
                  (filter (conclusive sarg04_example) [0..<nat (num_qubits sarg04_example)])"
    and b: "map Inr b =
              map (\<lambda>i. get_bit_from_state
                         (other_member (bob_state sarg04_example i) (announced_sets sarg04_example ! i)))
                (filter (conclusive sarg04_example) [0..<nat (num_qubits sarg04_example)])"
    by blast
  have n: "nat (num_qubits sarg04_example) = 6" by (simp add: sarg04_example_def)
  have "a = [0, 1, 0]"
    using a unfolding n sarg04_example_conclusive by (simp add: sarg04_example_def)
  moreover have "map Inr b = [Inr 0, Inr 1, Inr 0 :: error + int]"
    using b unfolding n sarg04_example_conclusive
    by (simp add: sarg04_example_def other_member_def bob_state_def measured_state_def
        are_orthogonal_def get_bit_from_state_def)
  then have "b = [0, 1, 0]" by auto
  ultimately show ?thesis using sarg04_example_ok r by simp
qed

section \<open>E91 and DeviceIndependentQKD: sifting, Bell test, execute\<close>

lemma and_then_Inr: "and_then (Inr x) f = f x"
  by (simp add: and_then_def)

lemma and_then_Inl: "and_then (Inl e) f = Inl e"
  by (simp add: and_then_def)

lemma pi_quarter: "1 / 2 \<le> pi / 4"
  using pi_ge_two by simp

lemma angles_far: "1 / 2 \<le> \<bar>x - y\<bar> \<Longrightarrow> \<not> angles_match x y"
  by (simp add: angles_match_def)

lemma angle_gaps:
  "1 / 2 \<le> \<bar>0 - pi / 4\<bar>" "1 / 2 \<le> \<bar>0 - pi / 2\<bar>" "1 / 2 \<le> \<bar>0 - 3 * pi / 4\<bar>"
  "1 / 2 \<le> \<bar>pi / 4 - pi / 2\<bar>" "1 / 2 \<le> \<bar>pi / 4 - 3 * pi / 4\<bar>"
  "1 / 2 \<le> \<bar>pi / 2 - pi / 4\<bar>" "1 / 2 \<le> \<bar>pi / 2 - 3 * pi / 4\<bar>"
  using pi_quarter by (simp_all add: abs_if)

lemma angles_match_refl: "angles_match x x"
  by (simp add: angles_match_def)

lemma py_index_setting:
  assumes "setting_ok a"
  shows "py_index [x0, x1, x2] a = Inr (if a = 0 then x0 else if a = 1 then x1 else x2)"
  using assms by (auto simp: setting_ok_def py_index_def)

lemma e91_angles_match:
  assumes "setting_ok a" "setting_ok b"
  shows "angles_match (if a = 0 then 0 else if a = 1 then pi / 4 else pi / 2)
           (if b = 0 then pi / 4 else if b = 1 then pi / 2 else 3 * pi / 4)
         = e91_key_pair a b"
proof -
  from assms(1) consider "a = 0" | "a = 1" | "a = 2" by (auto simp: setting_ok_def)
  moreover from assms(2) consider "b = 0" | "b = 1" | "b = 2" by (auto simp: setting_ok_def)
  ultimately show ?thesis
    by cases (simp_all add: e91_key_pair_def angles_match_refl angle_gaps [THEN angles_far])
qed

lemma e91_sift_body_eval:
  assumes "trials_ok s" "settings_ok s" "e91_angles s" "i < length (alice_results s)"
  shows "e91_sift_body s i (a, b) =
     Inr (if e91_kept s i then (a @ [alice_results s ! i], b @ [entangled.bob_results s ! i])
          else (a, b))"
proof -
  from assms have len: "i < length (alice_settings s)" "i < length (bob_settings s)"
      "i < length (entangled.bob_results s)"
    by (simp_all add: trials_ok_def)
  with assms(2) have ok: "setting_ok (alice_settings s ! i)" "setting_ok (bob_settings s ! i)"
    by (simp_all add: settings_ok_def list_all_length)
  from assms(3) have ang: "alice_angles s = [0, pi / 4, pi / 2]"
      "bob_angles s = [pi / 4, pi / 2, 3 * pi / 4]"
    by (simp_all add: e91_angles_def)
  show ?thesis
    by (simp add: e91_sift_body_def py_index_nat assms(4) len ang e91_kept_def lost_trial_def
        and_then_Inr py_index_setting[OF ok(1)] py_index_setting[OF ok(2)] e91_angles_match[OF ok])
qed

lemma di_sift_body_eval:
  assumes "trials_ok s" "i < length (alice_results s)"
  shows "di_sift_body s i (a, b) =
     Inr (if di_kept s i then (a @ [alice_results s ! i], b @ [entangled.bob_results s ! i])
          else (a, b))"
proof -
  from assms have len: "i < length (alice_settings s)" "i < length (bob_settings s)"
      "i < length (entangled.bob_results s)"
    by (simp_all add: trials_ok_def)
  show ?thesis
    by (simp add: di_sift_body_def py_index_nat assms(2) len di_kept_def lost_trial_def
        and_then_def)
qed

lemma e91_sift_keys_run:
  assumes "trials_ok s" "settings_ok s" "e91_angles s"
  shows "e91_sift_keys s =
     Inr (map (\<lambda>i. alice_results s ! i) (filter (e91_kept s) [0..<length (alice_results s)]),
          map (\<lambda>i. entangled.bob_results s ! i) (filter (e91_kept s) [0..<length (alice_results s)]))"
  unfolding e91_sift_keys_def py_range_def
  using for_each_sift[of "[0..<length (alice_results s)]" "e91_sift_body s" "e91_kept s"
      "\<lambda>i. alice_results s ! i" "\<lambda>i. entangled.bob_results s ! i" "[]" "[]"]
    e91_sift_body_eval[OF assms]
  by simp

lemma di_sift_keys_run:
  assumes "trials_ok s"
  shows "di_sift_keys s =
     Inr (map (\<lambda>i. alice_results s ! i) (filter (di_kept s) [0..<length (alice_results s)]),
          map (\<lambda>i. entangled.bob_results s ! i) (filter (di_kept s) [0..<length (alice_results s)]))"
  unfolding di_sift_keys_def py_range_def
  using for_each_sift[of "[0..<length (alice_results s)]" "di_sift_body s" "di_kept s"
      "\<lambda>i. alice_results s ! i" "\<lambda>i. entangled.bob_results s ! i" "[]" "[]"]
    di_sift_body_eval[OF assms]
  by simp

lemma e91_key_pair_angles:
  assumes "setting_ok a" "setting_ok b"
  shows "e91_key_pair a b \<longleftrightarrow> py_index [0, pi / 4, pi / 2] a = py_index [pi / 4, pi / 2, 3 * pi / 4] b"
  unfolding py_index_setting[OF assms(1)] py_index_setting[OF assms(2)]
  using assms pi_quarter by (auto simp: setting_ok_def e91_key_pair_def)

lemma for_each_count:
  assumes "\<And>i m t. i \<in> set xs \<Longrightarrow>
     body i (m, t) = Inr (if P i then (if Q i then m + 1 else m, t + 1) else (m, t))"
  shows "for_each xs body (m, t) =
     Inr (m + length (filter (\<lambda>i. P i \<and> Q i) xs), t + length (filter P xs))"
  using assms by (induction xs arbitrary: m t) auto

lemma e91_count_body_eval:
  assumes "trials_ok s" "i < length (alice_results s)"
  shows "e91_count_body s a b i (m, t) =
     Inr (if e91_hit s a b i then (if agree s i then m + 1 else m, t + 1) else (m, t))"
proof -
  from assms have len: "i < length (alice_settings s)" "i < length (bob_settings s)"
      "i < length (entangled.bob_results s)"
    by (simp_all add: trials_ok_def)
  show ?thesis
    by (simp add: e91_count_body_def py_index_nat assms(2) len e91_hit_def agree_def and_then_Inr)
qed

lemma e91_count_run:
  assumes "trials_ok s"
  shows "for_each (py_range (int (length (alice_results s)))) (e91_count_body s a b) (0, 0) =
     Inr (e91_matches s a b, e91_total s a b)"
  unfolding py_range_def e91_matches_def e91_total_def
  using for_each_count[of "[0..<length (alice_results s)]" "e91_count_body s a b"
      "e91_hit s a b" "agree s" 0 0] e91_count_body_eval[OF assms]
  by simp

lemma e91_pair_body_eval:
  assumes "trials_ok s"
  shows "e91_pair_body s (a, b) d = Inr (d((a, b) \<mapsto> e91_E s a b))"
  by (simp add: e91_pair_body_def e91_count_run[OF assms] and_then_Inr e91_E_def)

lemma e91_test_bell_inequality_run:
  assumes "trials_ok s"
  shows "e91_test_bell_inequality s =
     Inr \<lparr>e91_bell_stats.s_value = e91_S s,
          is_violated = (\<bar>e91_S s\<bar> > 2),
          estimated_qber = 0.5 * (1 - \<bar>e91_S s\<bar> / (2 * sqrt 2)),
          correlation_values = [(0, 0) \<mapsto> e91_E s 0 0, (0, 2) \<mapsto> e91_E s 0 2,
                                (2, 0) \<mapsto> e91_E s 2 0, (2, 2) \<mapsto> e91_E s 2 2]\<rparr>"
  by (simp add: e91_test_bell_inequality_def e91_pair_body_eval[OF assms] and_then_Inr
      dict_get_def e91_S_def Let_def)

lemma correlation_bounds: "m \<le> t \<Longrightarrow> \<bar>correlation m t\<bar> \<le> 1"
proof (cases "t = 0")
  case True
  then show ?thesis by (simp add: correlation_def)
next
  case False
  assume "m \<le> t"
  with False have "0 \<le> real m / real t" "real m / real t \<le> 1"
    by (simp_all add: divide_le_eq_1)
  then have "\<bar>2 * (real m / real t) - 1\<bar> \<le> 1" by linarith
  with False show ?thesis by (simp add: correlation_def)
qed

lemma filter_conj_le: "length (filter (\<lambda>i. P i \<and> Q i) xs) \<le> length (filter P xs)"
  by (induction xs) auto

lemma e91_E_bounds: "\<bar>e91_E s a b\<bar> \<le> 1"
  unfolding e91_E_def e91_matches_def e91_total_def
  by (rule correlation_bounds) (rule filter_conj_le)

lemma di_E_bounds: "\<bar>di_E s a b\<bar> \<le> 1"
  unfolding di_E_def di_matches_def di_total_def
  by (rule correlation_bounds) (rule filter_conj_le)

lemma e91_S_bound: "\<bar>e91_S s\<bar> \<le> 4"
  using e91_E_bounds[of s 0 0] e91_E_bounds[of s 0 2] e91_E_bounds[of s 2 0] e91_E_bounds[of s 2 2]
  unfolding e91_S_def by linarith

lemma di_S_bound: "\<bar>di_S s\<bar> \<le> 4"
  using di_E_bounds[of s 0 0] di_E_bounds[of s 0 1] di_E_bounds[of s 1 0] di_E_bounds[of s 1 1]
  unfolding di_S_def by linarith

lemma for_each_tally:
  assumes "\<And>i c. i \<in> set xs \<Longrightarrow>
     \<exists>c'. body i c = Inr c' \<and>
       (\<forall>k. T c' k = (if P k i then (if Q i then fst (T c k) + 1 else fst (T c k), snd (T c k) + 1)
                       else T c k))"
  shows "\<exists>c'. for_each xs body c = Inr c' \<and>
       (\<forall>k. T c' k = (fst (T c k) + length (filter (\<lambda>i. P k i \<and> Q i) xs),
                       snd (T c k) + length (filter (P k) xs)))"
  using assms
proof (induction xs arbitrary: c)
  case Nil
  then show ?case by simp
next
  case (Cons x xs)
  from Cons.prems[of x c] obtain c1 where
    b: "body x c = Inr c1"
    and t1: "\<And>k. T c1 k = (if P k x then (if Q x then fst (T c k) + 1 else fst (T c k), snd (T c k) + 1)
                       else T c k)"
    by auto
  have rest: "\<exists>c'. body i c = Inr c' \<and>
       (\<forall>k. T c' k = (if P k i then (if Q i then fst (T c k) + 1 else fst (T c k), snd (T c k) + 1)
                       else T c k))" if "i \<in> set xs" for i c
    using Cons.prems[of i c] that by simp
  from Cons.IH[of c1, OF rest] obtain c2 where
    r: "for_each xs body c1 = Inr c2"
    and t2: "\<And>k. T c2 k = (fst (T c1 k) + length (filter (\<lambda>i. P k i \<and> Q i) xs),
                       snd (T c1 k) + length (filter (P k) xs))"
    by blast
  have "for_each (x # xs) body c = Inr c2" using b r by simp
  moreover have "T c2 k = (fst (T c k) + length (filter (\<lambda>i. P k i \<and> Q i) (x # xs)),
                       snd (T c k) + length (filter (P k) (x # xs)))" for k
    by (simp add: t2 t1)
  ultimately show ?case by blast
qed

lemma di_count_body_eval:
  assumes "trials_ok s" "i < length (alice_results s)"
  shows "\<exists>c'. di_count_body s i c = Inr c' \<and>
       (\<forall>k. tally_of c' k =
          (if di_hit s (fst k) (snd k) i
           then (if agree s i then fst (tally_of c k) + 1 else fst (tally_of c k),
                 snd (tally_of c k) + 1)
           else tally_of c k))"
proof -
  from assms have len: "i < length (alice_settings s)" "i < length (bob_settings s)"
      "i < length (entangled.bob_results s)"
    by (simp_all add: trials_ok_def)
  show ?thesis
    by (auto simp: di_count_body_def py_index_nat assms(2) len di_hit_def agree_def and_then_Inr
        tally_of_def Let_def split: option.splits)
qed

lemma di_count_run:
  assumes "trials_ok s"
  shows "\<exists>counts. for_each (py_range (int (length (alice_results s)))) (di_count_body s) Map.empty
            = Inr counts
         \<and> (\<forall>a b. tally_of counts (a, b) = (di_matches s a b, di_total s a b))"
proof -
  have step: "\<exists>c'. di_count_body s i c = Inr c' \<and>
       (\<forall>k. tally_of c' k =
          (if di_hit s (fst k) (snd k) i
           then (if agree s i then fst (tally_of c k) + 1 else fst (tally_of c k),
                 snd (tally_of c k) + 1)
           else tally_of c k))" if "i \<in> set [0..<length (alice_results s)]" for i c
    using di_count_body_eval[OF assms, of i c] that by simp
  from for_each_tally[of "[0..<length (alice_results s)]" "di_count_body s" tally_of
      "\<lambda>k. di_hit s (fst k) (snd k)" "agree s" Map.empty, OF step]
  obtain counts where
    r: "for_each [0..<length (alice_results s)] (di_count_body s) Map.empty = Inr counts"
    and t: "\<And>k. tally_of counts k =
       (fst (tally_of Map.empty k)
          + length (filter (\<lambda>i. di_hit s (fst k) (snd k) i \<and> agree s i) [0..<length (alice_results s)]),
        snd (tally_of Map.empty k)
          + length (filter (di_hit s (fst k) (snd k)) [0..<length (alice_results s)]))"
    by blast
  have "tally_of counts (a, b) = (di_matches s a b, di_total s a b)" for a b
    using t[of "(a, b)"] by (simp add: tally_of_def di_matches_def di_total_def)
  with r show ?thesis by (simp add: py_range_def)
qed

lemma di_correlation_tally:
  "di_correlation counts key = correlation (fst (tally_of counts key)) (snd (tally_of counts key))"
  by (simp add: di_correlation_def tally_of_def correlation_def split: option.splits)

lemma di_test_bell_inequality_run:
  assumes "trials_ok s"
  shows "di_test_bell_inequality s =
     Inr \<lparr>di_bell_stats.s_value = di_S s, e00 = di_E s 0 0, e01 = di_E s 0 1,
          e10 = di_E s 1 0, e11 = di_E s 1 1\<rparr>"
proof -
  from di_count_run[OF assms] obtain counts where
    r: "for_each (py_range (int (length (alice_results s)))) (di_count_body s) Map.empty = Inr counts"
    and t: "\<And>a b. tally_of counts (a, b) = (di_matches s a b, di_total s a b)"
    by blast
  have c: "di_correlation counts (a, b) = di_E s a b" for a b
    by (simp add: di_correlation_tally t di_E_def)
  show ?thesis
    by (simp add: di_test_bell_inequality_def r and_then_Inr dict_get_def c di_S_def Let_def)
qed

lemma py_index_3:
  assumes "setting_ok a" "length xs = 3"
  shows "\<exists>x. py_index xs a = Inr x"
  using assms by (auto simp: setting_ok_def py_index_def)

lemma pair_body_eval:
  assumes "i < length (alice_settings s)" "i < length (bob_settings s)"
    "setting_ok (alice_settings s ! i)" "setting_ok (bob_settings s ! i)" "angles3 s"
  shows "pair_body draws i s =
     Inr (s\<lparr>alice_results := alice_results s @ [recorded_a s draws i],
            entangled.bob_results := entangled.bob_results s @ [recorded_b s draws i]\<rparr>)"
proof -
  from assms obtain x y where
    "py_index (alice_angles s) (alice_settings s ! i) = Inr x"
    "py_index (bob_angles s) (bob_settings s ! i) = Inr y"
    using py_index_3 unfolding angles3_def by blast
  then show ?thesis
    using assms(1,2)
    by (simp add: pair_body_def py_index_nat and_then_Inr recorded_a_def recorded_b_def lost_def
        Let_def split: option.splits)
qed

lemma pair_loop:
  assumes "k \<le> length (alice_settings s)" "k \<le> length (bob_settings s)"
    "list_all setting_ok (alice_settings s)" "list_all setting_ok (bob_settings s)" "angles3 s"
  shows "for_each [0..<k] (pair_body draws) s =
     Inr (s\<lparr>alice_results := alice_results s @ map (recorded_a s draws) [0..<k],
            entangled.bob_results := entangled.bob_results s @ map (recorded_b s draws) [0..<k]\<rparr>)"
  using assms(1,2)
proof (induction k)
  case 0
  show ?case by simp
next
  case (Suc k)
  let ?s = "s\<lparr>alice_results := alice_results s @ map (recorded_a s draws) [0..<k],
            entangled.bob_results := entangled.bob_results s @ map (recorded_b s draws) [0..<k]\<rparr>"
  from Suc have run: "for_each [0..<k] (pair_body draws) s = Inr ?s" by simp
  from Suc.prems assms(3,4) have ok: "k < length (alice_settings ?s)" "k < length (bob_settings ?s)"
    "setting_ok (alice_settings ?s ! k)" "setting_ok (bob_settings ?s ! k)"
    by (simp_all add: list_all_length)
  from assms(5) have a3: "angles3 ?s" by (simp add: angles3_def)
  have "for_each [0..<Suc k] (pair_body draws) s = pair_body draws k ?s"
    by (simp add: for_each_append run and_then_Inr split: sum.splits)
  also have "\<dots> = Inr (?s\<lparr>alice_results := alice_results ?s @ [recorded_a ?s draws k],
            entangled.bob_results := entangled.bob_results ?s @ [recorded_b ?s draws k]\<rparr>)"
    by (rule pair_body_eval[OF ok a3])
  finally show ?case
    by (simp add: recorded_a_def recorded_b_def lost_def)
qed

lemma pair_measure_states_run:
  assumes "draws_ok s draws" "angles3 s"
  shows "pair_measure_states s draws =
     Inr (map (\<lambda>r. if r \<noteq> - 1 then r else 0) (entangled.bob_results (measured s draws)),
          measured s draws)"
proof -
  let ?n = "nat (num_pairs s)"
  let ?s = "s\<lparr>alice_results := [], entangled.bob_results := [],
       alice_settings := map (\<lambda>i. a_setting (draws i)) [0..<?n],
       bob_settings := map (\<lambda>i. b_setting (draws i)) [0..<?n]\<rparr>"
  from assms(1) have ok: "list_all setting_ok (alice_settings ?s)" "list_all setting_ok (bob_settings ?s)"
    by (simp_all add: draws_ok_def list_all_length)
  from assms(2) have a3: "angles3 ?s" by (simp add: angles3_def)
  have "for_each [0..<?n] (pair_body draws) ?s =
     Inr (?s\<lparr>alice_results := alice_results ?s @ map (recorded_a ?s draws) [0..<?n],
            entangled.bob_results := entangled.bob_results ?s @ map (recorded_b ?s draws) [0..<?n]\<rparr>)"
    by (rule pair_loop[OF _ _ ok a3]) simp_all
  moreover have "recorded_a ?s draws = recorded_a s draws" "recorded_b ?s draws = recorded_b s draws"
    by (auto simp: recorded_a_def recorded_b_def lost_def fun_eq_iff)
  ultimately have "for_each [0..<?n] (pair_body draws) ?s = Inr (measured s draws)"
    by (simp add: measured_def)
  then show ?thesis
    by (simp add: pair_measure_states_def py_range_def Let_def and_then_Inr)
qed

lemma measured_trials_ok: "trials_ok (measured s draws)"
  by (simp add: trials_ok_def measured_def)

lemma measured_settings_ok: "draws_ok s draws \<Longrightarrow> settings_ok (measured s draws)"
  by (simp add: settings_ok_def measured_def draws_ok_def list_all_length)

lemma e91_sift_keys_frame:
  "e91_sift_keys (s\<lparr>entangled.is_secure := x\<rparr>) = e91_sift_keys s"
  "e91_sift_keys (s\<lparr>entangled.final_key := k\<rparr>) = e91_sift_keys s"
proof -
  have "e91_sift_body (s\<lparr>entangled.is_secure := x\<rparr>) = e91_sift_body s"
    "e91_sift_body (s\<lparr>entangled.final_key := k\<rparr>) = e91_sift_body s"
    by (simp_all add: fun_eq_iff e91_sift_body_def cong: if_cong)
  then show "e91_sift_keys (s\<lparr>entangled.is_secure := x\<rparr>) = e91_sift_keys s"
    "e91_sift_keys (s\<lparr>entangled.final_key := k\<rparr>) = e91_sift_keys s"
    by (simp_all add: e91_sift_keys_def)
qed

lemma di_sift_keys_frame:
  "di_sift_keys (s\<lparr>entangled.is_secure := x\<rparr>) = di_sift_keys s"
  "di_sift_keys (s\<lparr>entangled.final_key := k\<rparr>) = di_sift_keys s"
proof -
  have "di_sift_body (s\<lparr>entangled.is_secure := x\<rparr>) = di_sift_body s"
    "di_sift_body (s\<lparr>entangled.final_key := k\<rparr>) = di_sift_body s"
    by (simp_all add: fun_eq_iff di_sift_body_def cong: if_cong)
  then show "di_sift_keys (s\<lparr>entangled.is_secure := x\<rparr>) = di_sift_keys s"
    "di_sift_keys (s\<lparr>entangled.final_key := k\<rparr>) = di_sift_keys s"
    by (simp_all add: di_sift_keys_def)
qed

lemma measured_reset:
  "e91_angles s \<Longrightarrow> e91_angles (measured (reset s) draws)"
  "angles3 s \<Longrightarrow> angles3 (reset s)"
  "draws_ok s draws \<Longrightarrow> draws_ok (reset s) draws"
  "entangled.key_length (measured (reset s) draws) = entangled.key_length s"
  "entangled.security_threshold (measured (reset s) draws) = entangled.security_threshold s"
  by (simp_all add: e91_angles_def angles3_def draws_ok_def measured_def reset_def)

lemma e91_angles3: "e91_angles s \<Longrightarrow> angles3 s"
  by (simp add: e91_angles_def angles3_def)

lemma e91_execute_run:
  assumes "draws_ok s draws" "e91_angles s"
  shows "e91_execute s draws =
     Inr (\<lparr>e91_result.final_key =
              py_slice_to (fst (e91_keys (measured (reset s) draws))) (entangled.key_length s),
           qber = mismatch_rate (e91_keys (measured (reset s) draws)),
           is_secure = (\<bar>e91_S (measured (reset s) draws)\<bar> > 2),
           bell_test = e91_stats (measured (reset s) draws),
           raw_key_length = length (fst (e91_keys (measured (reset s) draws)))\<rparr>,
          (measured (reset s) draws)
            \<lparr>entangled.is_secure := (\<bar>e91_S (measured (reset s) draws)\<bar> > 2),
             entangled.final_key :=
               py_slice_to (fst (e91_keys (measured (reset s) draws))) (entangled.key_length s),
             entangled.qber := mismatch_rate (e91_keys (measured (reset s) draws)),
             entangled.is_complete := True\<rparr>)"
proof -
  let ?m = "measured (reset s) draws"
  have m: "e91_measure_states (reset s) draws =
      Inr (map (\<lambda>r. if r \<noteq> - 1 then r else 0) (entangled.bob_results ?m), ?m)"
    unfolding e91_measure_states_def
    by (rule pair_measure_states_run) (simp_all add: assms measured_reset e91_angles3)
  have b: "e91_test_bell_inequality ?m = Inr (e91_stats ?m)"
    unfolding e91_stats_def by (rule e91_test_bell_inequality_run) (rule measured_trials_ok)
  have k: "e91_sift_keys ?m = Inr (e91_keys ?m)"
    unfolding e91_keys_def
    by (rule e91_sift_keys_run)
      (simp_all add: measured_trials_ok measured_settings_ok measured_reset assms)
  show ?thesis
    by (simp add: e91_execute_def m b k and_then_Inr e91_sift_keys_frame e91_estimate_qber_def
        e91_stats_def measured_reset Let_def case_prod_beta)
qed

lemma di_execute_run:
  assumes "draws_ok s draws" "angles3 s"
  shows "di_execute s draws =
     Inr (\<lparr>di_result.final_key =
              py_slice_to (fst (di_keys (measured (reset s) draws))) (entangled.key_length s),
           qber = mismatch_rate (di_keys (measured (reset s) draws)),
           is_secure = (\<bar>di_S (measured (reset s) draws)\<bar> > entangled.security_threshold s),
           bell_test = di_stats (measured (reset s) draws),
           raw_key_length = length (fst (di_keys (measured (reset s) draws)))\<rparr>,
          (measured (reset s) draws)
            \<lparr>entangled.is_secure :=
               (\<bar>di_S (measured (reset s) draws)\<bar> > entangled.security_threshold s),
             entangled.final_key :=
               py_slice_to (fst (di_keys (measured (reset s) draws))) (entangled.key_length s),
             entangled.qber := mismatch_rate (di_keys (measured (reset s) draws)),
             entangled.is_complete := True\<rparr>)"
proof -
  let ?m = "measured (reset s) draws"
  have m: "di_measure_states (reset s) draws =
      Inr (map (\<lambda>r. if r \<noteq> - 1 then r else 0) (entangled.bob_results ?m), ?m)"
    unfolding di_measure_states_def
    by (rule pair_measure_states_run) (simp_all add: assms measured_reset)
  have b: "di_test_bell_inequality ?m = Inr (di_stats ?m)"
    unfolding di_stats_def by (rule di_test_bell_inequality_run) (rule measured_trials_ok)
  have k: "di_sift_keys ?m = Inr (di_keys ?m)"
    unfolding di_keys_def by (rule di_sift_keys_run) (rule measured_trials_ok)
  show ?thesis
    by (simp add: di_execute_def m b k and_then_Inr di_sift_keys_frame di_estimate_qber_def
        di_stats_def measured_reset Let_def case_prod_beta)
qed

section \<open>CV-QKD: arrays, sifting, execute\<close>

lemma np_shape_same2: "np_shape [n, n] = Inr n"
  by (simp add: np_shape_def)

lemma np_shape_same3: "np_shape [n, n, n] = Inr n"
  by (simp add: np_shape_def)

lemma np_add_eval:
  assumes "length xs = n" "length ys = n"
  shows "np_add xs ys = Inr (map (\<lambda>(x, y). x + y) (zip xs ys))"
  using assms by (simp add: np_add_def np_shape_same2 and_then_Inr np_broadcast_def)

lemma np_add_length:
  assumes "length xs = n" "length ys = n"
  shows "\<exists>zs. np_add xs ys = Inr zs \<and> length zs = n"
  using assms by (simp add: np_add_eval)

lemma np_where_eval:
  assumes "length c = n" "length xs = n" "length ys = n"
  shows "np_where c xs ys = Inr (map (\<lambda>(b, x, y). if b then x else y) (zip c (zip xs ys)))"
  using assms by (simp add: np_where_def np_shape_same3 and_then_Inr np_broadcast_def)

lemma np_draws_eval: "0 \<le> n \<Longrightarrow> np_draws d n = Inr (map d [0..<nat n])"
  by (simp add: np_draws_def)

lemma cv_prepare_states_run:
  assumes "0 \<le> block_size s"
  shows "cv_prepare_states s x_draw p_draw =
     Inr (replicate (nat (block_size s)) Qubit_zero,
          s\<lparr>alice_x := map x_draw [0..<nat (block_size s)],
            alice_p := map p_draw [0..<nat (block_size s)]\<rparr>)"
  using assms by (simp add: cv_prepare_states_def np_draws_eval and_then_Inr)

lemma cv_measure_states_run:
  assumes "0 \<le> block_size s" "length (alice_x s) = nat (block_size s)"
    "length (alice_p s) = nat (block_size s)"
  shows "\<exists>ms. cv_measure_states s np_random_normal bob_draw =
           Inr (replicate (nat (block_size s)) 0,
                s\<lparr>cvqkd.bob_bases := map bob_draw [0..<nat (block_size s)],
                  bob_measurements := ms\<rparr>)
         \<and> length ms = nat (block_size s)"
proof -
  let ?n = "nat (block_size s)"
  let ?t = "sqrt (10 powr (- (loss_coefficient (cvqkd.channel s) * distance (cvqkd.channel s)) / 10))"
  let ?v = "\<lambda>k. map (np_random_normal k) [0..<?n]"
  from assms obtain x0 where x0: "np_add (np_scale ?t (alice_x s)) (np_scale (sqrt (1 - ?t\<^sup>2)) (?v 0)) = Inr x0"
    "length x0 = ?n"
    using np_add_length[of "np_scale ?t (alice_x s)" ?n "np_scale (sqrt (1 - ?t\<^sup>2)) (?v 0)"]
    by (auto simp: np_scale_def)
  then obtain bx where bx: "np_add x0 (?v 2) = Inr bx" "length bx = ?n"
    using np_add_length[of x0 ?n "?v 2"] by auto
  from assms obtain p0 where p0: "np_add (np_scale ?t (alice_p s)) (np_scale (sqrt (1 - ?t\<^sup>2)) (?v 1)) = Inr p0"
    "length p0 = ?n"
    using np_add_length[of "np_scale ?t (alice_p s)" ?n "np_scale (sqrt (1 - ?t\<^sup>2)) (?v 1)"]
    by (auto simp: np_scale_def)
  then obtain bp where bp: "np_add p0 (?v 3) = Inr bp" "length bp = ?n"
    using np_add_length[of p0 ?n "?v 3"] by auto
  let ?sig = "map (\<lambda>(b, x, y). if b then x else y) (zip (map (\<lambda>b. b = 0) (map bob_draw [0..<?n])) (zip bx bp))"
  have w: "np_where (map (\<lambda>b. b = 0) (map bob_draw [0..<?n])) bx bp = Inr ?sig"
    using bx bp by (intro np_where_eval[of _ ?n]) simp_all
  have ls: "length ?sig = ?n" using bx bp by simp
  let ?eta = "homodyne_efficiency s"
  from ls obtain m0 where m0: "np_add (np_scale (sqrt ?eta) ?sig) (np_scale (sqrt (1 - ?eta)) (?v 5)) = Inr m0"
    "length m0 = ?n"
    using np_add_length[of "np_scale (sqrt ?eta) ?sig" ?n "np_scale (sqrt (1 - ?eta)) (?v 5)"]
    by (auto simp: np_scale_def)
  then obtain ms where ms: "np_add m0 (?v 4) = Inr ms" "length ms = ?n"
    using np_add_length[of m0 ?n "?v 4"] by auto
  have "cv_measure_states s np_random_normal bob_draw =
           Inr (replicate ?n 0, s\<lparr>cvqkd.bob_bases := map bob_draw [0..<?n], bob_measurements := ms\<rparr>)"
    using assms(1) x0 bx p0 bp w m0 ms
    by (simp add: cv_measure_states_def Let_def np_draws_eval and_then_Inr)
  with ms show ?thesis by blast
qed

lemma cv_sift_keys_run:
  assumes "length (cvqkd.bob_bases s) = n" "length (alice_x s) = n" "length (alice_p s) = n"
  shows "cv_sift_keys s =
     Inr (map (\<lambda>i. sign_bit (cv_sender_value s i)) [0..<n],
          map sign_bit (bob_measurements s))"
proof -
  have "map (\<lambda>(b, x, y). if b then x else y)
          (zip (map (\<lambda>b. b = 0) (cvqkd.bob_bases s)) (zip (alice_x s) (alice_p s)))
        = map (cv_sender_value s) [0..<n]"
    using assms by (intro nth_equalityI) (simp_all add: cv_sender_value_def)
  then show ?thesis
    using np_where_eval[of "map (\<lambda>b. b = 0) (cvqkd.bob_bases s)" n "alice_x s" "alice_p s"] assms
    by (simp add: cv_sift_keys_def and_then_Inr Let_def sign_bit_def[abs_def] comp_def)
qed



section \<open>The entanglement-based protocols: sifting and the CHSH statistic\<close>

lemma upt4: "[0..<4] = [0, 1, 2, 3]"
  by (simp add: upt_rec)

lemma upt5: "[0..<5] = [0, 1, 2, 3, 4]"
  by (simp add: upt_rec)

text \<open>
  C7. On recorded trials of equal length, \<open>E91.sift_keys\<close> keeps exactly the trials at
  which neither result is \<open>-1\<close> and the settings are Alice 1 with Bob 0 or Alice 2 with
  Bob 1, which are the pairs of settings whose angles coincide;
  \<open>DeviceIndependentQKD.sift_keys\<close> keeps exactly the trials at which neither result is
  \<open>-1\<close> and both settings are 0.
\<close>

theorem sift_keys_key_generation:
  assumes "trials_ok s" "settings_ok s" "e91_angles s" "trials_ok t"
  shows "e91_sift_keys s =
           Inr (map (\<lambda>i. alice_results s ! i) (filter (e91_kept s) [0..<length (alice_results s)]),
                map (\<lambda>i. entangled.bob_results s ! i)
                  (filter (e91_kept s) [0..<length (alice_results s)]))
       \<and> (\<forall>i < length (alice_results s).
            e91_key_pair (alice_settings s ! i) (bob_settings s ! i) \<longleftrightarrow>
              py_index (alice_angles s) (alice_settings s ! i) =
              py_index (bob_angles s) (bob_settings s ! i))
       \<and> di_sift_keys t =
           Inr (map (\<lambda>i. alice_results t ! i) (filter (di_kept t) [0..<length (alice_results t)]),
                map (\<lambda>i. entangled.bob_results t ! i)
                  (filter (di_kept t) [0..<length (alice_results t)]))"
proof -
  have "e91_key_pair (alice_settings s ! i) (bob_settings s ! i) \<longleftrightarrow>
          py_index (alice_angles s) (alice_settings s ! i) =
          py_index (bob_angles s) (bob_settings s ! i)"
    if "i < length (alice_results s)" for i
  proof -
    from assms(1,2) that
    have "setting_ok (alice_settings s ! i)" "setting_ok (bob_settings s ! i)"
      by (simp_all add: trials_ok_def settings_ok_def list_all_length)
    from e91_key_pair_angles[OF this] assms(3) show ?thesis
      by (simp add: e91_angles_def)
  qed
  with e91_sift_keys_run[OF assms(1,2,3)] di_sift_keys_run[OF assms(4)] show ?thesis
    by blast
qed

theorem sift_keys_key_generation_witness:
  "e91_sift_keys e91_example = Inr ([0, 1], [0, 1])
   \<and> di_sift_keys di_example = Inr ([1], [1])"
proof -
  have ok: "trials_ok e91_example" "settings_ok e91_example" "e91_angles e91_example"
    "trials_ok di_example"
    by (simp_all add: trials_ok_def settings_ok_def setting_ok_def e91_angles_def
        e91_example_def di_example_def e91_init_def di_init_def)
  have k: "filter (e91_kept e91_example) [0..<length (alice_results e91_example)] = [0, 1]"
    by (simp add: e91_example_def upt6 e91_kept_def lost_trial_def e91_key_pair_def)
  have d: "filter (di_kept di_example) [0..<length (alice_results di_example)] = [0]"
    by (simp add: di_example_def upt5 di_kept_def lost_trial_def)
  from sift_keys_key_generation[OF ok] show ?thesis
    unfolding k d by (simp add: e91_example_def di_example_def)
qed

text \<open>
  C3, as the code has it. On recorded trials of equal length, \<open>test_bell_inequality\<close>
  of both classes returns, and its S-value satisfies \<open>|S| \<le> 4\<close>: each of the four
  correlations lies in \<open>[-1, 1]\<close>. The bound \<open>2 * sqrt 2\<close> does not hold for every
  recorded data: the second theorem gives data with \<open>S = 4\<close>.
\<close>

theorem test_bell_inequality_bound:
  assumes "trials_ok s" "trials_ok t"
  shows "(\<exists>r. e91_test_bell_inequality s = Inr r \<and> \<bar>e91_bell_stats.s_value r\<bar> \<le> 4)
       \<and> (\<exists>r. di_test_bell_inequality t = Inr r \<and> \<bar>di_bell_stats.s_value r\<bar> \<le> 4)"
  using e91_test_bell_inequality_run[OF assms(1)] di_test_bell_inequality_run[OF assms(2)]
    e91_S_bound[of s] di_S_bound[of t]
  by simp

lemma e91_chsh_example_S: "e91_S e91_chsh_example = 4"
  by (simp add: e91_S_def e91_E_def e91_matches_def e91_total_def e91_hit_def agree_def
      correlation_def e91_chsh_example_def upt4)

lemma di_chsh_example_S: "di_S di_chsh_example = 4"
  by (simp add: di_S_def di_E_def di_matches_def di_total_def di_hit_def agree_def
      correlation_def di_chsh_example_def upt4)

lemma chsh_examples_ok: "trials_ok e91_chsh_example" "trials_ok di_chsh_example"
  by (simp_all add: trials_ok_def e91_chsh_example_def di_chsh_example_def)

theorem test_bell_inequality_bound_witness:
  "(\<exists>r. e91_test_bell_inequality e91_chsh_example = Inr r
        \<and> \<bar>e91_bell_stats.s_value r\<bar> \<le> 4 \<and> e91_bell_stats.s_value r = 4)
   \<and> (\<exists>r. di_test_bell_inequality di_chsh_example = Inr r
        \<and> \<bar>di_bell_stats.s_value r\<bar> \<le> 4 \<and> di_bell_stats.s_value r = 4)"
  using test_bell_inequality_bound[OF chsh_examples_ok]
    e91_test_bell_inequality_run[OF chsh_examples_ok(1)]
    di_test_bell_inequality_run[OF chsh_examples_ok(2)]
  by (simp add: e91_chsh_example_S di_chsh_example_S)

lemma four_exceeds_tsirelson: "\<not> (4 :: real) \<le> 2 * sqrt 2"
  using sqrt2_less_2 by simp

theorem tsirelson_counterexample:
  "e91_test_bell_inequality e91_chsh_example = Inr (e91_stats e91_chsh_example)
   \<and> \<not> \<bar>e91_bell_stats.s_value (e91_stats e91_chsh_example)\<bar> \<le> 2 * sqrt 2
   \<and> di_test_bell_inequality di_chsh_example = Inr (di_stats di_chsh_example)
   \<and> \<not> \<bar>di_bell_stats.s_value (di_stats di_chsh_example)\<bar> \<le> 2 * sqrt 2"
  using e91_test_bell_inequality_run[OF chsh_examples_ok(1)]
    di_test_bell_inequality_run[OF chsh_examples_ok(2)] four_exceeds_tsirelson
  by (simp add: e91_stats_def di_stats_def e91_chsh_example_S di_chsh_example_S)

section \<open>The entanglement-based protocols: execute\<close>

lemma count_all: "(\<And>i. i < n \<Longrightarrow> P i) \<Longrightarrow> length (filter P [0..<n]) = n"
  by (simp add: filter_True)

lemma count_none: "(\<And>i. i < n \<Longrightarrow> \<not> P i) \<Longrightarrow> length (filter P [0..<n]) = 0"
  by (simp add: filter_False)




lemma measured_length:
  "length (alice_results (measured s draws)) = nat (num_pairs s)"
  "length (entangled.bob_results (measured s draws)) = nat (num_pairs s)"
  by (simp_all add: measured_def)

lemma measured_nth:
  assumes "i < nat (num_pairs s)"
  shows "alice_results (measured s draws) ! i = recorded_a s draws i"
    "entangled.bob_results (measured s draws) ! i = recorded_b s draws i"
    "alice_settings (measured s draws) ! i = a_setting (draws i)"
    "bob_settings (measured s draws) ! i = b_setting (draws i)"
  using assms by (simp_all add: measured_def)

text \<open>The fields that \<open>execute\<close> writes after the Bell test are not read by it.\<close>

lemma hit_frame:
  "e91_hit (s\<lparr>entangled.is_secure := x, entangled.final_key := k, entangled.qber := q,
              entangled.is_complete := c\<rparr>) = e91_hit s"
  "di_hit (s\<lparr>entangled.is_secure := x, entangled.final_key := k, entangled.qber := q,
             entangled.is_complete := c\<rparr>) = di_hit s"
  "agree (s\<lparr>entangled.is_secure := x, entangled.final_key := k, entangled.qber := q,
            entangled.is_complete := c\<rparr>) = agree s"
  by (simp_all add: fun_eq_iff e91_hit_def di_hit_def agree_def)

lemma stats_frame:
  "e91_stats (s\<lparr>entangled.is_secure := x, entangled.final_key := k, entangled.qber := q,
               entangled.is_complete := c\<rparr>) = e91_stats s"
  "di_stats (s\<lparr>entangled.is_secure := x, entangled.final_key := k, entangled.qber := q,
              entangled.is_complete := c\<rparr>) = di_stats s"
  by (simp_all add: e91_stats_def e91_S_def e91_E_def e91_matches_def e91_total_def
      di_stats_def di_S_def di_E_def di_matches_def di_total_def hit_frame)

lemma trials_ok_frame:
  "trials_ok (s\<lparr>entangled.is_secure := x, entangled.final_key := k, entangled.qber := q,
                entangled.is_complete := c\<rparr>) = trials_ok s"
  by (simp add: trials_ok_def)

lemma test_bell_inequality_stats:
  assumes "trials_ok s"
  shows "e91_test_bell_inequality s = Inr (e91_stats s)"
    "di_test_bell_inequality s = Inr (di_stats s)"
  using e91_test_bell_inequality_run[OF assms] di_test_bell_inequality_run[OF assms]
  by (simp_all add: e91_stats_def di_stats_def)

text \<open>
  C2, as the code has it. \<open>execute\<close> of both classes returns; the Bell record it
  returns is \<open>test_bell_inequality\<close> of the recorded trials. In
  \<open>DeviceIndependentQKD\<close>, \<open>is_secure\<close> holds iff \<open>|S|\<close> exceeds the
  \<open>security_threshold\<close> given at construction; in \<open>E91\<close>, \<open>is_secure\<close> holds iff
  \<open>|S| > 2.0\<close>, whatever the \<open>security_threshold\<close>.
\<close>

theorem execute_is_secure:
  assumes "draws_ok s draws" "e91_angles s" "draws_ok t draws'" "angles3 t"
  shows "(\<exists>r s'. e91_execute s draws = Inr (r, s')
            \<and> e91_test_bell_inequality s' = Inr (e91_result.bell_test r)
            \<and> e91_result.is_secure r = (\<bar>e91_bell_stats.s_value (e91_result.bell_test r)\<bar> > 2)
            \<and> entangled.is_secure s' = e91_result.is_secure r
            \<and> entangled.is_complete s')
       \<and> (\<exists>r t'. di_execute t draws' = Inr (r, t')
            \<and> di_test_bell_inequality t' = Inr (di_result.bell_test r)
            \<and> di_result.is_secure r =
                (\<bar>di_bell_stats.s_value (di_result.bell_test r)\<bar> > entangled.security_threshold t)
            \<and> entangled.security_threshold t' = entangled.security_threshold t
            \<and> entangled.is_secure t' = di_result.is_secure r
            \<and> entangled.is_complete t')"
proof -
  let ?m = "measured (reset s) draws"
  let ?s' = "?m\<lparr>entangled.is_secure := (\<bar>e91_S ?m\<bar> > 2),
       entangled.final_key := py_slice_to (fst (e91_keys ?m)) (entangled.key_length s),
       entangled.qber := mismatch_rate (e91_keys ?m), entangled.is_complete := True\<rparr>"
  have "trials_ok ?s'" by (simp add: trials_ok_frame measured_trials_ok)
  from test_bell_inequality_stats(1)[OF this]
  have b: "e91_test_bell_inequality ?s' = Inr (e91_stats ?m)"
    by (simp only: stats_frame)
  let ?n = "measured (reset t) draws'"
  let ?t' = "?n\<lparr>entangled.is_secure := (\<bar>di_S ?n\<bar> > entangled.security_threshold t),
       entangled.final_key := py_slice_to (fst (di_keys ?n)) (entangled.key_length t),
       entangled.qber := mismatch_rate (di_keys ?n), entangled.is_complete := True\<rparr>"
  have "trials_ok ?t'" by (simp add: trials_ok_frame measured_trials_ok)
  from test_bell_inequality_stats(2)[OF this]
  have d: "di_test_bell_inequality ?t' = Inr (di_stats ?n)"
    by (simp only: stats_frame)
  have e1: "\<exists>r s'. e91_execute s draws = Inr (r, s')
            \<and> e91_test_bell_inequality s' = Inr (e91_result.bell_test r)
            \<and> e91_result.is_secure r = (\<bar>e91_bell_stats.s_value (e91_result.bell_test r)\<bar> > 2)
            \<and> entangled.is_secure s' = e91_result.is_secure r
            \<and> entangled.is_complete s'"
    using e91_execute_run[OF assms(1,2)] b
    by (simp add: e91_stats_def)
  have e2: "\<exists>r t'. di_execute t draws' = Inr (r, t')
            \<and> di_test_bell_inequality t' = Inr (di_result.bell_test r)
            \<and> di_result.is_secure r =
                (\<bar>di_bell_stats.s_value (di_result.bell_test r)\<bar> > entangled.security_threshold t)
            \<and> entangled.security_threshold t' = entangled.security_threshold t
            \<and> entangled.is_secure t' = di_result.is_secure r
            \<and> entangled.is_complete t'"
    using di_execute_run[OF assms(3,4)] d
    by (simp add: di_stats_def measured_reset)
  from e1 e2 show ?thesis by blast
qed


lemma clean_measured:
  assumes "loss (entangled.channel s) = 0"
    and "loss_draw (d i) = 1 / 2" "res_a (d i) = 0" "res_b (d i) = Some 0"
    and "i < nat (num_pairs s)"
  shows "e91_hit (measured s d) a b i = (a_setting (d i) = a \<and> b_setting (d i) = b)"
    and "di_hit (measured s d) a b i =
           (a_setting (d i) \<noteq> 0 \<and> b_setting (d i) \<noteq> 0
            \<and> a_setting (d i) - 1 = a \<and> b_setting (d i) - 1 = b)"
    and "agree (measured s d) i"
    and "e91_kept (measured s d) i = e91_key_pair (a_setting (d i)) (b_setting (d i))"
    and "di_kept (measured s d) i = (a_setting (d i) = 0 \<and> b_setting (d i) = 0)"
  using assms
  by (simp_all add: e91_hit_def di_hit_def agree_def e91_kept_def di_kept_def lost_trial_def
      measured_nth recorded_a_def recorded_b_def lost_def)

lemma filter_agree:
  assumes "\<And>i. i < n \<Longrightarrow> Q i"
  shows "filter (\<lambda>i. P i \<and> Q i) [0..<n] = filter P [0..<n]"
  using assms by (intro filter_cong) simp_all

lemma objects_ok:
  "e91_angles e91_object" "angles3 di_object"
  "nat (num_pairs (reset e91_object)) = 500" "nat (num_pairs (reset di_object)) = 2000"
  "loss (entangled.channel (reset e91_object)) = 0" "loss (entangled.channel (reset di_object)) = 0"
  "entangled.security_threshold e91_object = 1 / 10" "entangled.security_threshold di_object = 2"
  "entangled.key_length e91_object = 20" "entangled.key_length di_object = 20"
  by (simp_all add: e91_object_def di_object_def e91_init_def di_init_def e91_angles_def
      angles3_def reset_def example_channel_def)

lemma example_draws_ok:
  "draws_ok s same_setting_draws" "draws_ok s test_only_draws"
  by (simp_all add: draws_ok_def setting_ok_def same_setting_draws_def test_only_draws_def)

lemma same_setting_fields:
  "a_setting (same_setting_draws j) = 0" "b_setting (same_setting_draws j) = 0"
  "loss_draw (same_setting_draws j) = 1 / 2" "res_a (same_setting_draws j) = 0"
  "res_b (same_setting_draws j) = Some 0"
  by (simp_all add: same_setting_draws_def)


lemma same_setting_e91_E:
  "e91_E (measured (reset e91_object) same_setting_draws) a b = (if a = 0 \<and> b = 0 then 1 else 0)"
proof -
  let ?m = "measured (reset e91_object) same_setting_draws"
  note c = clean_measured[OF objects_ok(5) same_setting_fields(3,4,5), unfolded objects_ok(3)]
  have h: "e91_hit ?m a b i = (a = 0 \<and> b = 0)" if "i < 500" for i
    using c(1)[OF that] by (auto simp: same_setting_fields)
  have m: "e91_matches ?m a b = e91_total ?m a b"
    unfolding e91_matches_def e91_total_def measured_length objects_ok(3)
    by (simp add: filter_agree c(3))
  have "e91_total ?m a b = (if a = 0 \<and> b = 0 then 500 else 0)"
  proof (cases "a = 0 \<and> b = 0")
    case True
    with h have "length (filter (e91_hit ?m a b) [0..<500]) = 500"
      by (intro count_all) simp
    with True show ?thesis
      by (simp add: e91_total_def measured_length objects_ok(3))
  next
    case False
    with h have "length (filter (e91_hit ?m a b) [0..<500]) = 0"
      by (intro count_none) simp
    with False show ?thesis
      by (simp add: e91_total_def measured_length objects_ok(3))
  qed
  then show ?thesis
    by (simp add: e91_E_def m correlation_def)
qed

lemma same_setting_e91_S: "e91_S (measured (reset e91_object) same_setting_draws) = 1"
  by (simp add: e91_S_def same_setting_e91_E)

lemma same_setting_di_S: "di_S (measured (reset di_object) same_setting_draws) = 0"
proof -
  let ?m = "measured (reset di_object) same_setting_draws"
  note c = clean_measured[OF objects_ok(6) same_setting_fields(3,4,5), unfolded objects_ok(4)]
  have h: "\<not> di_hit ?m a b i" if "i < 2000" for i a b
    using c(2)[OF that] by (simp add: same_setting_fields)
  have "di_total ?m a b = 0" for a b
    unfolding di_total_def measured_length objects_ok(4)
    using h by (intro count_none) simp
  then show ?thesis
    by (simp add: di_S_def di_E_def correlation_def)
qed

theorem execute_is_secure_witness:
  "(\<exists>r s'. e91_execute e91_object same_setting_draws = Inr (r, s')
      \<and> e91_bell_stats.s_value (e91_result.bell_test r) = 1
      \<and> e91_result.is_secure r = False \<and> entangled.is_secure s' = False)
   \<and> (\<exists>r t'. di_execute di_object same_setting_draws = Inr (r, t')
      \<and> di_bell_stats.s_value (di_result.bell_test r) = 0
      \<and> di_result.is_secure r = False \<and> entangled.is_secure t' = False)"
proof -
  from execute_is_secure[OF example_draws_ok(1) objects_ok(1) example_draws_ok(1) objects_ok(2)]
  obtain r s' q t' where
    e: "e91_execute e91_object same_setting_draws = Inr (r, s')"
    and es: "e91_result.is_secure r = (\<bar>e91_bell_stats.s_value (e91_result.bell_test r)\<bar> > 2)"
      "entangled.is_secure s' = e91_result.is_secure r"
    and d: "di_execute di_object same_setting_draws = Inr (q, t')"
    and ds: "di_result.is_secure q =
        (\<bar>di_bell_stats.s_value (di_result.bell_test q)\<bar> > entangled.security_threshold di_object)"
      "entangled.is_secure t' = di_result.is_secure q"
    by blast
  from e e91_execute_run[OF example_draws_ok(1) objects_ok(1)]
  have "e91_bell_stats.s_value (e91_result.bell_test r) = 1"
    by (auto simp: e91_stats_def same_setting_e91_S)
  moreover from d di_execute_run[OF example_draws_ok(1) objects_ok(2)]
  have "di_bell_stats.s_value (di_result.bell_test q) = 0"
    by (auto simp: di_stats_def same_setting_di_S)
  ultimately show ?thesis
    using e es d ds by (simp add: objects_ok)
qed

theorem e91_threshold_counterexample:
  "\<not> isl (e91_execute e91_object same_setting_draws)
   \<and> \<not> e91_result.is_secure (fst (projr (e91_execute e91_object same_setting_draws)))
   \<and> entangled.security_threshold e91_object
       < \<bar>e91_bell_stats.s_value
            (e91_result.bell_test (fst (projr (e91_execute e91_object same_setting_draws))))\<bar>"
  by (simp add: e91_execute_run[OF example_draws_ok(1) objects_ok(1)] e91_stats_def
      same_setting_e91_S objects_ok)

section \<open>The length of the final key\<close>










lemma cv_object_fields:
  "block_size cv_object = 10000" "cvqkd.key_length cv_object = 100"
  "modulation_variance cv_object = 4" "homodyne_efficiency cv_object = 9 / 10"
  by (simp_all add: cv_object_def cv_init_def)




section \<open>CV-QKD: sifting keeps every trial\<close>

lemma sign_bit_range: "sign_bit x = 0 \<or> sign_bit x = 1"
  by (simp add: sign_bit_def)

text \<open>
  C10. After \<open>prepare_states\<close> and \<open>measure_states\<close> (which return, for a
  non-negative \<open>block_size\<close>), \<open>CVQKD.sift_keys\<close> returns two lists of length
  \<open>block_size\<close> whose elements are 0 or 1; the sender's \<open>i\<close>-th element is the sign
  bit of \<open>alice_x[i]\<close> where the receiver measured X (\<open>bob_bases[i] = 0\<close>) and of
  \<open>alice_p[i]\<close> otherwise.
\<close>

theorem cv_sift_keys_keeps_all:
  assumes "0 \<le> block_size s"
  shows "\<exists>q s1 r s2 a b.
           cv_prepare_states s x_draw p_draw = Inr (q, s1)
         \<and> cv_measure_states s1 np_random_normal bob_draw = Inr (r, s2)
         \<and> cv_sift_keys s2 = Inr (a, b)
         \<and> length a = nat (block_size s) \<and> length b = nat (block_size s)
         \<and> set a \<subseteq> {0, 1} \<and> set b \<subseteq> {0, 1}
         \<and> (\<forall>i < nat (block_size s).
               a ! i = (if (if cvqkd.bob_bases s2 ! i = 0 then alice_x s2 ! i else alice_p s2 ! i) > 0
                        then 1 else 0))"
proof -
  let ?n = "nat (block_size s)"
  let ?s1 = "s\<lparr>alice_x := map x_draw [0..<?n], alice_p := map p_draw [0..<?n]\<rparr>"
  have p: "cv_prepare_states s x_draw p_draw = Inr (replicate ?n Qubit_zero, ?s1)"
    by (rule cv_prepare_states_run[OF assms])
  have "0 \<le> block_size ?s1" "length (alice_x ?s1) = nat (block_size ?s1)"
    "length (alice_p ?s1) = nat (block_size ?s1)"
    using assms by simp_all
  from cv_measure_states_run[OF this, of np_random_normal bob_draw] obtain ms where
    m: "cv_measure_states ?s1 np_random_normal bob_draw =
          Inr (replicate ?n 0, ?s1\<lparr>cvqkd.bob_bases := map bob_draw [0..<?n], bob_measurements := ms\<rparr>)"
    and lm: "length ms = ?n"
    by auto
  let ?s2 = "?s1\<lparr>cvqkd.bob_bases := map bob_draw [0..<?n], bob_measurements := ms\<rparr>"
  let ?a = "map (\<lambda>i. sign_bit (cv_sender_value ?s2 i)) [0..<?n]"
  let ?b = "map sign_bit (bob_measurements ?s2)"
  have k: "cv_sift_keys ?s2 = Inr (?a, ?b)"
    by (rule cv_sift_keys_run) simp_all
  have la: "length ?a = ?n" "length ?b = ?n" using lm by simp_all
  have sa: "set ?a \<subseteq> {0, 1}" "set ?b \<subseteq> {0, 1}"
    using sign_bit_range by auto
  have nth: "\<forall>i < ?n. ?a ! i =
      (if (if cvqkd.bob_bases ?s2 ! i = 0 then alice_x ?s2 ! i else alice_p ?s2 ! i) > 0 then 1 else 0)"
    by (auto simp: sign_bit_def cv_sender_value_def)
  from p m k la sa nth show ?thesis by blast
qed

theorem cv_sift_keys_keeps_all_witness:
  "\<exists>q s1 r s2 a b.
     cv_prepare_states cv_object zero_draws zero_draws = Inr (q, s1)
   \<and> cv_measure_states s1 zero_normal x_basis_draws = Inr (r, s2)
   \<and> cv_sift_keys s2 = Inr (a, b)
   \<and> length a = 10000 \<and> length b = 10000
   \<and> set a \<subseteq> {0, 1} \<and> set b \<subseteq> {0, 1}"
proof -
  have "0 \<le> block_size cv_object" by (simp add: cv_object_fields)
  from cv_sift_keys_keeps_all[OF this, of zero_draws zero_draws zero_normal x_basis_draws]
  show ?thesis
    unfolding cv_object_fields by simp blast
qed

section \<open>Small samples\<close>
















section \<open>Lost carriers\<close>










lemma example_received_measured:
  "sarg04.bob_results
     (snd (sarg04_measure_states (sarg04_init 1) example_choice example_measure example_received))
   = [Some 0, None, Some 0, Some 1, Some 0, Some 1]"
  by (simp add: sarg04_measure_states_def example_received_def example_choice_def
      example_measure_def sarg04_init_def Let_def)


section \<open>Where the randomness comes from\<close>

lemma upt12: "[0..<12] = [0, 1, 2, 3, 4, 5, 6, 7, 8, 9, 10, 11]"
  by (simp add: upt_rec)

lemma noisy_example_sift:
  "sarg04_sift_keys noisy_example =
     Inr ([0, 0, 0, 0, 0, 0, 0, 0, 0, 0, 0, 0], [1, 0, 0, 0, 0, 0, 0, 0, 0, 0, 0, 0])"
  by (simp add: sarg04_sift_keys_def py_range_def noisy_example_def upt12 sarg04_sift_body_def
      py_index_def and_then_Inr measured_state_def are_orthogonal_def get_bit_from_state_def)

lemma np_scale_upt: "np_scale c (map f [0..<n]) = map (\<lambda>j. c * f j) [0..<n]"
  by (simp add: np_scale_def)

lemma np_add_upt:
  "np_add (map f [0..<n]) (map g [0..<n]) = Inr (map (\<lambda>j. f j + g j) [0..<n])"
  by (subst np_add_eval[of _ n]) (auto intro: nth_equalityI)

lemma np_where_upt:
  "np_where (map c [0..<n]) (map f [0..<n]) (map g [0..<n]) =
     Inr (map (\<lambda>j. if c j then f j else g j) [0..<n])"
  by (subst np_where_eval[of _ n]) (auto intro: nth_equalityI)


lemma cv_measure_states_values:
  assumes "0 \<le> block_size s" "length (alice_x s) = nat (block_size s)"
    "length (alice_p s) = nat (block_size s)"
  shows "cv_measure_states s g bd =
     Inr (replicate (nat (block_size s)) 0,
          s\<lparr>cvqkd.bob_bases := map bd [0..<nat (block_size s)],
            bob_measurements := map (cv_measured_value s g bd) [0..<nat (block_size s)]\<rparr>)"
proof -
  let ?n = "nat (block_size s)"
  have x: "alice_x s = map (\<lambda>j. alice_x s ! j) [0..<?n]"
    and p: "alice_p s = map (\<lambda>j. alice_p s ! j) [0..<?n]"
    using map_nth[of "alice_x s"] map_nth[of "alice_p s"] assms(2,3) by simp_all
  show ?thesis
    unfolding cv_measure_states_def Let_def np_draws_eval[OF assms(1)] and_then_Inr
    apply (subst x, subst p)
    apply (simp only: np_scale_upt np_add_upt and_then_Inr cvqkd.simps map_map comp_def
        np_where_upt)
    apply (simp add: comp_def np_where_upt np_add_upt np_scale_upt and_then_Inr
        cv_measured_value_def Let_def)
    done
qed


lemma cv_prepared_fields:
  "block_size cv_prepared = 10000" "length (alice_x cv_prepared) = 10000"
  "length (alice_p cv_prepared) = 10000"
  by (simp_all add: cv_prepared_def cv_object_fields)

lemma cv_prepared_run:
  "cv_prepare_states cv_object zero_draws zero_draws = Inr (replicate 10000 Qubit_zero, cv_prepared)"
  using cv_prepare_states_run[of cv_object zero_draws zero_draws]
  by (simp add: cv_object_fields cv_prepared_def)

lemma detector_noise_shows:
  "cv_measured_value s detector_normal bd j = cv_measured_value s zero_normal bd j + 1"
  by (simp add: cv_measured_value_def Let_def detector_normal_def zero_normal_def)

lemma cv_prepared_measurements:
  "cv_measure_states cv_prepared g bd =
     Inr (replicate 10000 0,
          cv_prepared\<lparr>cvqkd.bob_bases := map bd [0..<10000],
            bob_measurements := map (cv_measured_value cv_prepared g bd) [0..<10000]\<rparr>)"
  using cv_measure_states_values[of cv_prepared g bd] by (simp add: cv_prepared_fields)

lemma first_next_indices: "first_indices 12 2 = [0, 1]" "next_indices 12 2 = [1, 2]"
  by (simp_all add: first_indices_def next_indices_def upt_rec)

lemma noisy_example_counts:
  "count_errors [0, 0, 0, 0, 0, 0, 0, 0, 0, 0, 0, 0] [1, 0, 0, 0, 0, 0, 0, 0, 0, 0, 0, 0] [0, 1]
     = Inr 1"
  "count_errors [0, 0, 0, 0, 0, 0, 0, 0, 0, 0, 0, 0] [1, 0, 0, 0, 0, 0, 0, 0, 0, 0, 0, 0] [1, 2]
     = Inr 0"
  by (simp_all add: count_errors_def py_index_def and_then_Inr)

lemma noisy_example_sample:
  "length [0, 0, 0, 0, 0, 0, 0, 0, 0, 0, 0, 0 :: int] = 12"
  "max 1 (nat \<lfloor>real (12 :: nat) * 0.2\<rfloor>) = 2"
  by simp_all

text \<open>
  C5. \<open>SARG04.estimate_qber\<close> and \<open>CVQKD.measure_states\<close> are not functions of
  the stored data and of the stream of the secure source: they also draw from numpy's
  process-wide generator. On the same stored data, two answers of that generator make
  \<open>estimate_qber\<close> return \<open>0.5\<close> and \<open>0.0\<close>, and make \<open>measure_states\<close> store
  different measurements, with the same draws of \<open>rng_bob\<close>.
\<close>

theorem numpy_generator_decides:
  "sarg04_estimate_qber noisy_example first_indices = Inr (1 / 2)
   \<and> sarg04_estimate_qber noisy_example next_indices = Inr 0
   \<and> cv_prepare_states cv_object zero_draws zero_draws
       = Inr (replicate 10000 Qubit_zero, cv_prepared)
   \<and> cv_measure_states cv_prepared zero_normal x_basis_draws
       \<noteq> cv_measure_states cv_prepared detector_normal x_basis_draws"
proof -
  have a: "sarg04_estimate_qber noisy_example first_indices = Inr (1 / 2)"
    unfolding sarg04_estimate_qber_def noisy_example_sift and_then_Inr prod.case Let_def
      noisy_example_sample first_next_indices noisy_example_counts
    by simp
  have b: "sarg04_estimate_qber noisy_example next_indices = Inr 0"
    unfolding sarg04_estimate_qber_def noisy_example_sift and_then_Inr prod.case Let_def
      noisy_example_sample first_next_indices noisy_example_counts
    by simp
  have c: "cv_measure_states cv_prepared zero_normal x_basis_draws
       \<noteq> cv_measure_states cv_prepared detector_normal x_basis_draws"
  proof
    assume "cv_measure_states cv_prepared zero_normal x_basis_draws
       = cv_measure_states cv_prepared detector_normal x_basis_draws"
    then have "bob_measurements (snd (projr (cv_measure_states cv_prepared zero_normal x_basis_draws)))
        = bob_measurements (snd (projr (cv_measure_states cv_prepared detector_normal x_basis_draws)))"
      by simp
    then have "map (cv_measured_value cv_prepared zero_normal x_basis_draws) [0..<10000]
        = map (cv_measured_value cv_prepared detector_normal x_basis_draws) [0..<10000]"
      unfolding cv_prepared_measurements by simp
    then have "map (cv_measured_value cv_prepared zero_normal x_basis_draws) [0..<10000] ! 0
        = map (cv_measured_value cv_prepared detector_normal x_basis_draws) [0..<10000] ! 0"
      by simp
    then show False
      by (simp add: detector_noise_shows)
  qed
  from a b c cv_prepared_run show ?thesis by blast
qed

end
